theory Spec2Isabelle
  imports Complex_Main
begin

text \<open>
  A shallow embedding of the prompt-to-code pipeline of the repository: the heuristic Dart
  validator (\<open>lib/dart-validator.ts\<close>), the edit-intent classifier with its file resolvers
  and the pubspec operations (\<open>lib/flutter-package-manager.ts\<close>), and the template code
  generator (\<open>lib/flutter-code-generator.ts\<close>).

  A JavaScript string is modelled as an Isabelle string whose characters are the code units
  below 256. White space (\<open>trim\<close>, \<open>\s\<close>) and word characters (\<open>\w\<close>, \<open>\b\<close>) are those of
  ECMAScript on these code units; case mapping (\<open>toLowerCase\<close>, \<open>toUpperCase\<close>, the \<open>i\<close> flag)
  is modelled on the ASCII letters, and the properties that go through it are stated for
  ASCII text. JavaScript numbers are IEEE 754 binary64 values, kept as the rationals they
  denote, with the rounding of every sum written out. Property reads on objects see the
  members of \<open>Object.prototype\<close>. Exceptions are values of a sum type.
\<close>

section \<open>Strings\<close>

definition charCode :: "char \<Rightarrow> nat" where
  "charCode c = of_char c"

definition isUpper :: "char \<Rightarrow> bool" where
  "isUpper c = (65 \<le> charCode c \<and> charCode c \<le> 90)"

definition isLower :: "char \<Rightarrow> bool" where
  "isLower c = (97 \<le> charCode c \<and> charCode c \<le> 122)"

definition isDigit :: "char \<Rightarrow> bool" where
  "isDigit c = (48 \<le> charCode c \<and> charCode c \<le> 57)"

text \<open>
  \<open>\w\<close> is \<open>[A-Za-z0-9_]\<close>. The white space of \<open>\s\<close> and \<open>trim\<close> is, below 256: tab, LF, VT, FF,
  CR (codes 9 to 13), space (32) and the no-break space U+00A0 (160).
\<close>

definition isWordChar :: "char \<Rightarrow> bool" where
  "isWordChar c = (isUpper c \<or> isLower c \<or> isDigit c \<or> c = CHR ''_'')"

definition isSpace :: "char \<Rightarrow> bool" where
  "isSpace c = (charCode c = 32 \<or> (9 \<le> charCode c \<and> charCode c \<le> 13) \<or> charCode c = 160)"

definition isAscii :: "string \<Rightarrow> bool" where
  "isAscii s = list_all (\<lambda>c. charCode c < 128) s"

text \<open>Lower and upper case of an ASCII letter differ in bit 5 of the code.\<close>

fun lowerChar :: "char \<Rightarrow> char" where
  "lowerChar (Char b0 b1 b2 b3 b4 b5 b6 b7) =
     (if isUpper (Char b0 b1 b2 b3 b4 b5 b6 b7) then Char b0 b1 b2 b3 b4 True b6 b7
      else Char b0 b1 b2 b3 b4 b5 b6 b7)"

fun upperChar :: "char \<Rightarrow> char" where
  "upperChar (Char b0 b1 b2 b3 b4 b5 b6 b7) =
     (if isLower (Char b0 b1 b2 b3 b4 b5 b6 b7) then Char b0 b1 b2 b3 b4 False b6 b7
      else Char b0 b1 b2 b3 b4 b5 b6 b7)"

definition toLowerCase :: "string \<Rightarrow> string" where
  "toLowerCase s = map lowerChar s"

definition toUpperCase :: "string \<Rightarrow> string" where
  "toUpperCase s = map upperChar s"

definition trim :: "string \<Rightarrow> string" where
  "trim s = rev (dropWhile isSpace (rev (dropWhile isSpace s)))"

fun startsWith :: "string \<Rightarrow> string \<Rightarrow> bool" where
  "startsWith s [] = True"
| "startsWith [] (p # ps) = False"
| "startsWith (c # cs) (p # ps) = (c = p \<and> startsWith cs ps)"

definition endsWith :: "string \<Rightarrow> string \<Rightarrow> bool" where
  "endsWith s suffix = startsWith (rev s) (rev suffix)"

fun includes_str :: "string \<Rightarrow> string \<Rightarrow> bool" where
  "includes_str [] sub = (sub = [])"
| "includes_str (c # cs) sub = (startsWith (c # cs) sub \<or> includes_str cs sub)"

text \<open>\<open>indexOf\<close> gives \<open>-1\<close> when the substring does not occur.\<close>

fun indexOf_from :: "nat \<Rightarrow> string \<Rightarrow> string \<Rightarrow> int" where
  "indexOf_from i [] sub = (if sub = [] then int i else -1)"
| "indexOf_from i (c # cs) sub =
     (if startsWith (c # cs) sub then int i else indexOf_from (Suc i) cs sub)"

definition indexOf :: "string \<Rightarrow> string \<Rightarrow> int" where
  "indexOf s sub = indexOf_from 0 s sub"

text \<open>\<open>s.split(d)\<close> for a one-character separator: never the empty list.\<close>

primrec split_on :: "char \<Rightarrow> string \<Rightarrow> string list" where
  "split_on d [] = [[]]"
| "split_on d (c # cs) =
     (if c = d then [] # split_on d cs
      else (case split_on d cs of [] \<Rightarrow> [[c]] | l # ls \<Rightarrow> (c # l) # ls))"

primrec join :: "string \<Rightarrow> string list \<Rightarrow> string" where
  "join sep [] = []"
| "join sep (x # xs) = (if xs = [] then x else x @ sep @ join sep xs)"

definition substring :: "string \<Rightarrow> nat \<Rightarrow> nat \<Rightarrow> string" where
  "substring s b e = take (e - b) (drop b s)"

text \<open>\<open>[...new Set(xs)]\<close>: the first occurrence of every element, in order.\<close>

fun dedup_acc :: "'a list \<Rightarrow> 'a list \<Rightarrow> 'a list" where
  "dedup_acc seen [] = []"
| "dedup_acc seen (x # xs) =
     (if x \<in> set seen then dedup_acc seen xs else x # dedup_acc (x # seen) xs)"

definition dedup :: "'a list \<Rightarrow> 'a list" where
  "dedup xs = dedup_acc [] xs"

section \<open>Numbers\<close>

text \<open>
  A JavaScript number is an IEEE 754 binary64 value; a finite one is kept as the rational it
  denotes. \<open>round_double\<close> rounds a rational to the nearest binary64 value, ties to the even
  significand: with \<open>2 ^ e \<le> \<bar>q\<bar> < 2 ^ (e + 1)\<close> the result is a multiple of \<open>2 ^ (e - 52)\<close>
  (of \<open>2 ^ -1074\<close> in the subnormal range). Overflow to infinity does not occur below
  \<open>2 ^ 1023\<close>; the numbers of this program lie between 0.3 and 1.2. A decimal literal
  denotes the rounded value of the decimal fraction, and \<open>x + y\<close> the rounded exact sum.
\<close>

text \<open>The number of binary digits of a positive integer.\<close>

function bit_length :: "int \<Rightarrow> int" where
  "bit_length n = (if n \<le> 0 then 0 else 1 + bit_length (n div 2))"
  by pat_completeness auto
termination
  by (relation "measure nat") auto

definition pow2 :: "int \<Rightarrow> rat" where
  "pow2 k = (if 0 \<le> k then 2 ^ nat k else 1 / 2 ^ nat (- k))"

text \<open>The \<open>e\<close> with \<open>2 ^ e \<le> q < 2 ^ (e + 1)\<close>, for a positive \<open>q\<close>.\<close>

definition binary_exponent :: "rat \<Rightarrow> int" where
  "binary_exponent q =
     (let (n, d) = quotient_of q;
          e = bit_length n - bit_length d
      in if pow2 e \<le> q then e else e - 1)"

definition round_half_even :: "rat \<Rightarrow> int" where
  "round_half_even q =
     (let f = \<lfloor>q\<rfloor>; r = q - of_int f
      in if r < 1 / 2 then f else if 1 / 2 < r then f + 1 else if even f then f else f + 1)"

definition round_double :: "rat \<Rightarrow> rat" where
  "round_double q =
     (if q = 0 then 0
      else
        let e = max (binary_exponent \<bar>q\<bar> - 52) (- 1074);
            m = round_half_even (\<bar>q\<bar> / pow2 e)
        in sgn q * of_int m * pow2 e)"

definition js_number :: "rat \<Rightarrow> rat" where
  "js_number q = round_double q"

definition js_add :: "rat \<Rightarrow> rat \<Rightarrow> rat" where
  "js_add x y = round_double (x + y)"

section \<open>Objects\<close>

text \<open>
  The objects that the program indexes with computed keys (\<open>config[key]\<close>,
  \<open>COMMON_PACKAGES[packageName]\<close>, \<open>targetDependencies[packageName]\<close>) are ordinary objects,
  made by object literals, whose prototype is \<open>Object.prototype\<close>. A read \<open>obj[key]\<close> gives the
  own property of that name and otherwise the member of \<open>Object.prototype\<close> of that name,
  here \<open>inherited key\<close>; it is \<open>undefined\<close> (\<open>None\<close>) when there is neither.
\<close>

definition object_prototype_members :: "string list" where
  "object_prototype_members =
     [''constructor'', ''__defineGetter__'', ''__defineSetter__'', ''hasOwnProperty'',
      ''__lookupGetter__'', ''__lookupSetter__'', ''isPrototypeOf'', ''propertyIsEnumerable'',
      ''toString'', ''valueOf'', ''__proto__'', ''toLocaleString'']"

definition js_get :: "(string \<rightharpoonup> 'a) \<Rightarrow> (string \<Rightarrow> 'a) \<Rightarrow> string \<Rightarrow> 'a option" where
  "js_get own inherited key =
     (case own key of
        Some v \<Rightarrow> Some v
      | None \<Rightarrow> if key \<in> set object_prototype_members then Some (inherited key) else None)"

text \<open>
  A write \<open>obj[key] = v\<close> updates or creates the own property, except under the key
  \<^verbatim>\<open>__proto__\<close>, an accessor of \<open>Object.prototype\<close>: when the object has no own property of that
  name, the write calls the setter, which adds no property (the values written here under
  that key are strings, which the setter ignores, and \<open>Object.prototype\<close> itself, which is the
  prototype already).
\<close>

definition js_set :: "(string \<rightharpoonup> 'a) \<Rightarrow> string \<Rightarrow> 'a \<Rightarrow> (string \<rightharpoonup> 'a)" where
  "js_set own key v = (if key = ''__proto__'' \<and> own key = None then own else own(key \<mapsto> v))"

section \<open>Regular expressions\<close>

text \<open>
  The regular expressions of the source are data of type \<open>rx\<close>, run by a backtracking
  matcher that follows the ECMAScript semantics: alternatives and quantifiers are tried in
  priority order, so the head of the result list is the match JavaScript reports. A match
  state is the character before the position (for \<open>\b\<close> and \<open>^\<close>), the rest of the input,
  the index, and the text of the capture groups.
\<close>

datatype citem = IWord | ISpace | IChr char | IRange char char

datatype cset = Inc "citem list" | Exc "citem list" | Dot

datatype rx =
    Sym cset
  | Eps
  | Seq rx rx
  | Alt rx rx
  | Rep bool nat "nat option" rx
  | Grp nat rx
  | Bol
  | Eol
  | Wb
  | NLook rx

text \<open>
  With the \<open>i\<close> flag (\<open>ic\<close>) two characters match when their upper-case forms agree (the
  \<open>Canonicalize\<close> of the standard, on ASCII).
\<close>

fun in_citem :: "bool \<Rightarrow> citem \<Rightarrow> char \<Rightarrow> bool" where
  "in_citem ic IWord x = isWordChar x"
| "in_citem ic ISpace x = isSpace x"
| "in_citem ic (IChr c) x = (if ic then upperChar x = upperChar c else x = c)"
| "in_citem ic (IRange a b) x =
     (let inr = (\<lambda>y. charCode a \<le> charCode y \<and> charCode y \<le> charCode b)
      in if ic then inr x \<or> inr (upperChar x) \<or> inr (lowerChar x) else inr x)"

fun in_cset :: "bool \<Rightarrow> cset \<Rightarrow> char \<Rightarrow> bool" where
  "in_cset ic (Inc its) x = list_ex (\<lambda>it. in_citem ic it x) its"
| "in_cset ic (Exc its) x = (\<not> list_ex (\<lambda>it. in_citem ic it x) its)"
| "in_cset ic Dot x = (x \<noteq> CHR 0x0A \<and> x \<noteq> CHR 0x0D)"

type_synonym captures = "(nat \<times> string) list"

type_synonym mstate = "char option \<times> string \<times> nat \<times> captures"

primrec grps :: "rx \<Rightarrow> nat list" where
  "grps (Sym cs) = []"
| "grps Eps = []"
| "grps (Seq a b) = grps a @ grps b"
| "grps (Alt a b) = grps a @ grps b"
| "grps (Rep g mn mx r) = grps r"
| "grps (Grp n r) = n # grps r"
| "grps Bol = []"
| "grps Eol = []"
| "grps Wb = []"
| "grps (NLook r) = grps r"

fun reset_caps :: "nat list \<Rightarrow> mstate \<Rightarrow> mstate" where
  "reset_caps gs (p, rest, i, cs) = (p, rest, i, filter (\<lambda>(n, t). n \<notin> set gs) cs)"

fun st_pos :: "mstate \<Rightarrow> nat" where
  "st_pos (p, rest, i, cs) = i"

fun st_caps :: "mstate \<Rightarrow> captures" where
  "st_caps (p, rest, i, cs) = cs"

fun st_fuel :: "mstate \<Rightarrow> nat" where
  "st_fuel (p, rest, i, cs) = length rest"

fun dec_max :: "nat option \<Rightarrow> nat option" where
  "dec_max None = None"
| "dec_max (Some k) = Some (k - 1)"

text \<open>
  The quantifier \<open>r{mn,mx}\<close> (RepeatMatcher): the captures of the body are cleared before
  each round, a round that matches the empty string once the minimum is reached is
  rejected, a greedy quantifier tries one more round before stopping and a lazy one stops
  first. Every accepted round consumes a character or lowers the minimum, so
  \<open>length rest + mn + 1\<close> rounds of fuel are never used up.
\<close>

fun rep_loop ::
  "(mstate \<Rightarrow> mstate list) \<Rightarrow> nat list \<Rightarrow> bool \<Rightarrow> nat \<Rightarrow> nat option \<Rightarrow> nat \<Rightarrow> mstate
     \<Rightarrow> mstate list" where
  "rep_loop m gs greedy mn mx 0 st = (if mn = 0 then [st] else [])"
| "rep_loop m gs greedy mn mx (Suc fuel) st =
     (if mx = Some 0 then [st]
      else
        let more = concat (map (\<lambda>y. if mn = 0 \<and> st_pos y = st_pos st then []
                                      else rep_loop m gs greedy (mn - 1) (dec_max mx) fuel y)
                               (m (reset_caps gs st)))
        in if mn \<noteq> 0 then more else if greedy then more @ [st] else st # more)"

fun set_cap :: "nat \<Rightarrow> mstate \<Rightarrow> mstate \<Rightarrow> mstate" where
  "set_cap n (p0, rest0, i0, cs0) (p, rest, i, cs) =
     (p, rest, i, (n, take (i - i0) rest0) # filter (\<lambda>(k, t). k \<noteq> n) cs)"

fun step_sym :: "bool \<Rightarrow> cset \<Rightarrow> mstate \<Rightarrow> mstate list" where
  "step_sym ic cs (p, [], i, caps) = []"
| "step_sym ic cs (p, x # xs, i, caps) =
     (if in_cset ic cs x then [(Some x, xs, Suc i, caps)] else [])"

fun at_bol :: "mstate \<Rightarrow> bool" where
  "at_bol (p, rest, i, caps) = (p = None)"

fun at_eol :: "mstate \<Rightarrow> bool" where
  "at_eol (p, rest, i, caps) = (rest = [])"

fun at_wb :: "mstate \<Rightarrow> bool" where
  "at_wb (p, rest, i, caps) =
     ((case p of None \<Rightarrow> False | Some c \<Rightarrow> isWordChar c)
        \<noteq> (case rest of [] \<Rightarrow> False | c # cs \<Rightarrow> isWordChar c))"

primrec run :: "bool \<Rightarrow> rx \<Rightarrow> mstate \<Rightarrow> mstate list" where
  "run ic (Sym cs) st = step_sym ic cs st"
| "run ic Eps st = [st]"
| "run ic (Seq a b) st = concat (map (run ic b) (run ic a st))"
| "run ic (Alt a b) st = run ic a st @ run ic b st"
| "run ic (Rep greedy mn mx r) st =
     rep_loop (run ic r) (grps r) greedy mn mx (Suc (st_fuel st + mn)) st"
| "run ic (Grp n r) st = map (set_cap n st) (run ic r st)"
| "run ic Bol st = (if at_bol st then [st] else [])"
| "run ic Eol st = (if at_eol st then [st] else [])"
| "run ic Wb st = (if at_wb st then [st] else [])"
| "run ic (NLook r) st = (if run ic r st = [] then [st] else [])"

text \<open>The notation of the source's regular expressions.\<close>

primrec lit :: "string \<Rightarrow> rx" where
  "lit [] = Eps"
| "lit (c # cs) = Seq (Sym (Inc [IChr c])) (lit cs)"

primrec seqs :: "rx list \<Rightarrow> rx" where
  "seqs [] = Eps"
| "seqs (r # rs) = Seq r (seqs rs)"

text \<open>An alternation; the empty one matches nothing.\<close>

fun alts :: "rx list \<Rightarrow> rx" where
  "alts [] = NLook Eps"
| "alts [r] = r"
| "alts (r # rs) = Alt r (alts rs)"

definition opt :: "rx \<Rightarrow> rx" where
  "opt r = Rep True 0 (Some 1) r"

definition star :: "rx \<Rightarrow> rx" where
  "star r = Rep True 0 None r"

definition plus :: "rx \<Rightarrow> rx" where
  "plus r = Rep True 1 None r"

definition lazy_star :: "rx \<Rightarrow> rx" where
  "lazy_star r = Rep False 0 None r"

definition lazy_plus :: "rx \<Rightarrow> rx" where
  "lazy_plus r = Rep False 1 None r"

definition ws1 :: rx where
  "ws1 = plus (Sym (Inc [ISpace]))"

definition ws0 :: rx where
  "ws0 = star (Sym (Inc [ISpace]))"

definition wordc :: rx where
  "wordc = Sym (Inc [IWord])"

definition word1 :: rx where
  "word1 = plus wordc"

definition lits :: "string list \<Rightarrow> rx" where
  "lits ws = alts (map lit ws)"

text \<open>
  \<open>exec\<close>: the leftmost start at or after the given position where the expression
  matches, with the state after the match (its end index and captures).
\<close>

fun exec_from :: "bool \<Rightarrow> rx \<Rightarrow> char option \<Rightarrow> string \<Rightarrow> nat \<Rightarrow> (nat \<times> mstate) option" where
  "exec_from ic r p [] i =
     (case run ic r (p, [], i, []) of [] \<Rightarrow> None | y # ys \<Rightarrow> Some (i, y))"
| "exec_from ic r p (x # xs) i =
     (case run ic r (p, x # xs, i, []) of
        [] \<Rightarrow> exec_from ic r (Some x) xs (Suc i)
      | y # ys \<Rightarrow> Some (i, y))"

definition rx_test :: "bool \<Rightarrow> rx \<Rightarrow> string \<Rightarrow> bool" where
  "rx_test ic r s = (exec_from ic r None s 0 \<noteq> None)"

text \<open>\<open>s.match(r)\<close> without the \<open>g\<close> flag: the captures of the first match.\<close>

definition cap :: "captures \<Rightarrow> nat \<Rightarrow> string option" where
  "cap cs n = map_of cs n"

definition rx_match :: "bool \<Rightarrow> rx \<Rightarrow> string \<Rightarrow> captures option" where
  "rx_match ic r s = map_option (\<lambda>(b, y). st_caps y) (exec_from ic r None s 0)"

text \<open>
  The matches of a global expression, left to right, as (start, end, captures): the search
  resumes at the end of the last match, one character further after an empty match.
\<close>

fun prev_at :: "string \<Rightarrow> nat \<Rightarrow> char option" where
  "prev_at s 0 = None"
| "prev_at s (Suc i) = (if i < length s then Some (s ! i) else None)"

fun match_all_from :: "nat \<Rightarrow> bool \<Rightarrow> rx \<Rightarrow> string \<Rightarrow> nat \<Rightarrow> (nat \<times> nat \<times> captures) list" where
  "match_all_from 0 ic r s i = []"
| "match_all_from (Suc fuel) ic r s i =
     (if length s < i then []
      else case exec_from ic r (prev_at s i) (drop i s) i of
        None \<Rightarrow> []
      | Some (b, y) \<Rightarrow>
          (b, st_pos y, st_caps y)
            # match_all_from fuel ic r s (if st_pos y = b then Suc b else st_pos y))"

definition match_all :: "bool \<Rightarrow> rx \<Rightarrow> string \<Rightarrow> (nat \<times> nat \<times> captures) list" where
  "match_all ic r s = match_all_from (Suc (Suc (length s))) ic r s 0"

definition match_strings :: "bool \<Rightarrow> rx \<Rightarrow> string \<Rightarrow> string list" where
  "match_strings ic r s = map (\<lambda>(b, e, cs). substring s b e) (match_all ic r s)"

text \<open>
  \<open>s.replace(r, f)\<close>: the text between the matches is kept and every match is replaced by
  what \<open>f\<close> makes of the matched text and its captures.
\<close>

fun splice :: "string \<Rightarrow> nat \<Rightarrow> (string \<Rightarrow> captures \<Rightarrow> string) \<Rightarrow> (nat \<times> nat \<times> captures) list \<Rightarrow> string" where
  "splice s i f [] = drop i s"
| "splice s i f ((b, e, cs) # ms) = substring s i b @ f (substring s b e) cs @ splice s e f ms"

definition replace_all :: "bool \<Rightarrow> rx \<Rightarrow> (string \<Rightarrow> captures \<Rightarrow> string) \<Rightarrow> string \<Rightarrow> string" where
  "replace_all ic r f s = splice s 0 f (match_all ic r s)"

definition replace_first :: "bool \<Rightarrow> rx \<Rightarrow> (string \<Rightarrow> captures \<Rightarrow> string) \<Rightarrow> string \<Rightarrow> string" where
  "replace_first ic r f s =
     (case exec_from ic r None s 0 of
        None \<Rightarrow> s
      | Some (b, y) \<Rightarrow> splice s 0 f [(b, st_pos y, st_caps y)])"

definition group :: "captures \<Rightarrow> nat \<Rightarrow> string" where
  "group cs n = (case map_of cs n of None \<Rightarrow> [] | Some t \<Rightarrow> t)"

section \<open>The Dart validator (dart-validator.ts)\<close>

datatype Severity = error | warning | info

record DartValidationError =
  err_line :: nat
  err_column :: int
  err_message :: string
  err_severity :: Severity
  err_code :: "string option"

record DartValidationResult =
  isValid :: bool
  errors :: "DartValidationError list"
  warnings :: "DartValidationError list"
  formattedCode :: "string option"

definition FLUTTER_WIDGETS :: "string list" where
  "FLUTTER_WIDGETS =
    [''Widget'', ''StatelessWidget'', ''StatefulWidget'', ''State'', ''BuildContext'',
     ''Scaffold'', ''AppBar'', ''Container'', ''Text'', ''Column'', ''Row'', ''Stack'',
     ''ListView'', ''GridView'', ''Image'', ''Icon'', ''IconButton'', ''ElevatedButton'',
     ''TextButton'', ''FloatingActionButton'', ''Card'', ''Padding'', ''Margin'',
     ''Center'', ''Align'', ''Expanded'', ''Flexible'', ''SizedBox'', ''Divider'',
     ''TextField'', ''TextFormField'', ''DropdownButton'', ''Checkbox'', ''Radio'',
     ''Switch'', ''Slider'', ''AlertDialog'', ''BottomSheet'', ''Drawer'',
     ''BottomNavigationBar'', ''TabBar'', ''TabBarView'', ''MaterialApp'',
     ''CupertinoApp'', ''Theme'', ''MediaQuery'', ''SafeArea'']"

text \<open>The apostrophe, for the messages and patterns that hold one.\<close>

definition apos :: string where
  "apos = [CHR 0x27]"

subsection \<open>shouldHaveSemicolon\<close>

text \<open>\<^verbatim>\<open>/^\s*(var|final|const|int|double|String|bool|List|Map)\s+/\<close>\<close>

definition rx_declaration :: rx where
  "rx_declaration =
     seqs [Bol, ws0,
           Grp 1 (lits [''var'', ''final'', ''const'', ''int'', ''double'', ''String'', ''bool'',
                        ''List'', ''Map'']),
           ws1]"

text \<open>\<^verbatim>\<open>/^\s*\w+\s*=/\<close>\<close>

definition rx_assignment :: rx where
  "rx_assignment = seqs [Bol, ws0, word1, ws0, lit ''='']"

text \<open>\<^verbatim>\<open>/^\s*return\s+/\<close>, \<^verbatim>\<open>/^\s*throw\s+/\<close>, \<^verbatim>\<open>/^\s*assert\s*\(/\<close>, \<^verbatim>\<open>/^\s*super\s*\(/\<close>\<close>

definition rx_return :: rx where
  "rx_return = seqs [Bol, ws0, lit ''return'', ws1]"

definition rx_throw :: rx where
  "rx_throw = seqs [Bol, ws0, lit ''throw'', ws1]"

definition rx_assert :: rx where
  "rx_assert = seqs [Bol, ws0, lit ''assert'', ws0, lit ''('']"

definition rx_super :: rx where
  "rx_super = seqs [Bol, ws0, lit ''super'', ws0, lit ''('']"

definition shouldHaveSemicolon :: "string \<Rightarrow> bool" where
  "shouldHaveSemicolon line =
     (let trimmed = trim line in
      if includes_str trimmed ''{'' \<or> includes_str trimmed ''=>'' \<or> endsWith trimmed ''(''
      then False
      else rx_test False rx_declaration line
         \<or> rx_test False rx_assignment line
         \<or> (rx_test False rx_return line \<and> \<not> endsWith trimmed ''('')
         \<or> rx_test False rx_throw line
         \<or> rx_test False rx_assert line
         \<or> rx_test False rx_super line)"

subsection \<open>checkCommonTypos and checkBasicSyntax\<close>

definition typos :: "(string \<times> string) list" where
  "typos =
    [(''Stateless'', ''StatelessWidget''), (''Stateful'', ''StatefulWidget''),
     (''scaffold'', ''Scaffold''), (''appBar'', ''AppBar''), (''container'', ''Container''),
     (''text'', ''Text''), (''column'', ''Column''), (''row'', ''Row'')]"

text \<open>\<^verbatim>\<open>new RegExp(`\\b${typo.wrong}\\b`, 'g')\<close>\<close>

definition typo_rx :: "string \<Rightarrow> rx" where
  "typo_rx wrong = seqs [Wb, lit wrong, Wb]"

definition typo_error :: "string \<Rightarrow> nat \<Rightarrow> string \<times> string \<Rightarrow> DartValidationError list" where
  "typo_error line lineNumber typo =
     (case typo of (wrong, correct) \<Rightarrow>
       if rx_test False (typo_rx wrong) line \<and> \<not> includes_str line ''//'' then
         (case match_strings False (typo_rx wrong) line of
            [] \<Rightarrow> []
          | m0 # ms \<Rightarrow>
              [\<lparr>err_line = lineNumber, err_column = indexOf line m0 + 1,
                err_message =
                  ''Did you mean '' @ apos @ correct @ apos @ ''? Found '' @ apos @ wrong @ apos,
                err_severity = error, err_code = Some ''possible_typo''\<rparr>])
       else [])"

definition checkCommonTypos ::
  "string \<Rightarrow> nat \<Rightarrow> DartValidationError list \<Rightarrow> DartValidationError list" where
  "checkCommonTypos line lineNumber errs = errs @ concat (map (typo_error line lineNumber) typos)"

text \<open>
  The bracket count of \<open>checkBasicSyntax\<close> guards an empty block in the source and has no
  effect; it is left out.
\<close>

definition checkBasicSyntax ::
  "string \<Rightarrow> nat \<Rightarrow> DartValidationError list \<Rightarrow> DartValidationError list" where
  "checkBasicSyntax line lineNumber errs =
     (let trimmedLine = trim line in
      if trimmedLine = [] \<or> startsWith trimmedLine ''//'' \<or> startsWith trimmedLine ''/*''
      then errs
      else
        let errs1 =
              (if shouldHaveSemicolon trimmedLine \<and> \<not> endsWith trimmedLine '';''
               then errs @ [\<lparr>err_line = lineNumber, err_column = int (length line),
                             err_message = ''Missing semicolon at end of statement'',
                             err_severity = error, err_code = Some ''missing_semicolon''\<rparr>]
               else errs)
        in checkCommonTypos line lineNumber errs1)"

subsection \<open>checkFlutterPatterns\<close>

text \<open>\<^verbatim>\<open>/^\s*return\s+\w+\(/\<close> and \<^verbatim>\<open>/return\s+(\w+)\(/\<close>\<close>

definition rx_return_call :: rx where
  "rx_return_call = seqs [Bol, ws0, lit ''return'', ws1, word1, lit ''('']"

definition rx_return_widget :: rx where
  "rx_return_widget = seqs [lit ''return'', ws1, Grp 1 word1, lit ''('']"

text \<open>\<^verbatim>\<open>/class\s+(\w+)/\<close> and \<^verbatim>\<open>/^[A-Z][a-zA-Z0-9]*$/\<close>\<close>

definition rx_class :: rx where
  "rx_class = seqs [lit ''class'', ws1, Grp 1 word1]"

definition alnum :: cset where
  "alnum = Inc [IRange CHR ''a'' CHR ''z'', IRange CHR ''A'' CHR ''Z'', IRange CHR ''0'' CHR ''9'']"

definition rx_pascal :: rx where
  "rx_pascal = seqs [Bol, Sym (Inc [IRange CHR ''A'' CHR ''Z'']), star (Sym alnum), Eol]"

definition checkFlutterPatterns ::
  "string \<Rightarrow> nat \<Rightarrow> DartValidationError list \<Rightarrow> DartValidationError list" where
  "checkFlutterPatterns line lineNumber warns =
     (let trimmedLine = trim line;
          warns1 =
            (if rx_test False rx_return_call trimmedLine \<and> \<not> includes_str trimmedLine ''const''
             then (case rx_match False rx_return_widget trimmedLine of
                     None \<Rightarrow> warns
                   | Some cs \<Rightarrow>
                       if group cs 1 \<in> set FLUTTER_WIDGETS
                       then warns @
                         [\<lparr>err_line = lineNumber,
                           err_column = indexOf trimmedLine (group cs 1) + 1,
                           err_message =
                             ''Consider adding '' @ apos @ ''const'' @ apos
                               @ '' keyword for better performance: const ''
                               @ group cs 1 @ ''(...)'',
                           err_severity = warning, err_code = Some ''missing_const''\<rparr>]
                       else warns)
             else warns);
          warns2 =
            (if includes_str trimmedLine ''({'' \<and> includes_str trimmedLine ''key''
                \<and> \<not> includes_str trimmedLine ''super.key''
             then warns1 @
               [\<lparr>err_line = lineNumber, err_column = 1,
                 err_message = ''Consider using super.key instead of key parameter'',
                 err_severity = warning, err_code = Some ''prefer_super_key''\<rparr>]
             else warns1)
      in case rx_match False rx_class trimmedLine of
           None \<Rightarrow> warns2
         | Some cs \<Rightarrow>
             let className = group cs 1 in
             if \<not> rx_test False rx_pascal className
             then warns2 @
               [\<lparr>err_line = lineNumber, err_column = indexOf trimmedLine className + 1,
                 err_message = ''Widget class names should be in PascalCase'',
                 err_severity = warning, err_code = Some ''invalid_class_name''\<rparr>]
             else warns2)"

subsection \<open>checkBestPractices\<close>

text \<open>\<^verbatim>\<open>/(?:var|final|const)\s+(\w+)/\<close>, \<^verbatim>\<open>/^[a-z][a-zA-Z0-9]*$/\<close> and \<^verbatim>\<open>/'[^']{10,}'/g\<close>\<close>

definition rx_var :: rx where
  "rx_var = seqs [lits [''var'', ''final'', ''const''], ws1, Grp 1 word1]"

definition rx_camel :: rx where
  "rx_camel = seqs [Bol, Sym (Inc [IRange CHR ''a'' CHR ''z'']), star (Sym alnum), Eol]"

definition rx_long_string :: rx where
  "rx_long_string =
     seqs [lit apos, Rep True 10 None (Sym (Exc [IChr (CHR 0x27)])), lit apos]"

definition long_string_warning :: "string \<Rightarrow> nat \<Rightarrow> string \<Rightarrow> DartValidationError list" where
  "long_string_warning trimmedLine lineNumber str =
     (if \<not> includes_str trimmedLine ''//'' \<and> \<not> includes_str trimmedLine ''import''
         \<and> 20 < length str
      then [\<lparr>err_line = lineNumber, err_column = indexOf trimmedLine str + 1,
              err_message = ''Consider extracting long strings to constants or localization'',
              err_severity = info, err_code = Some ''long_string_literal''\<rparr>]
      else [])"

definition checkBestPractices ::
  "string \<Rightarrow> nat \<Rightarrow> DartValidationError list \<Rightarrow> DartValidationError list" where
  "checkBestPractices line lineNumber warns =
     (let trimmedLine = trim line;
          warns1 =
            (case rx_match False rx_var trimmedLine of
               None \<Rightarrow> warns
             | Some cs \<Rightarrow>
                 if \<not> includes_str trimmedLine ''('' \<and> \<not> includes_str trimmedLine ''extends''
                 then
                   let varName = group cs 1 in
                   if \<not> rx_test False rx_camel varName \<and> \<not> startsWith varName ''_''
                   then warns @
                     [\<lparr>err_line = lineNumber, err_column = indexOf trimmedLine varName + 1,
                       err_message = ''Variable names should be in camelCase'',
                       err_severity = warning, err_code = Some ''invalid_variable_name''\<rparr>]
                   else warns
                 else warns);
          stringMatches = match_strings False rx_long_string trimmedLine;
          warns2 = warns1 @ concat (map (long_string_warning trimmedLine lineNumber) stringMatches)
      in if includes_str trimmedLine ''setState'' \<and> \<not> includes_str trimmedLine ''() =>''
         then warns2 @
           [\<lparr>err_line = lineNumber, err_column = indexOf trimmedLine ''setState'' + 1,
             err_message = ''Consider using setState(() => { ... }) for better readability'',
             err_severity = info, err_code = Some ''setState_style''\<rparr>]
         else warns2)"

subsection \<open>checkOverallStructure\<close>

definition material_import :: string where
  "material_import = ''import '' @ apos @ ''package:flutter/material.dart'' @ apos"

definition checkOverallStructure ::
  "string \<Rightarrow> DartValidationError list \<Rightarrow> DartValidationError list \<Rightarrow> DartValidationError list" where
  "checkOverallStructure src errs warns =
     (let errs1 =
            (if (includes_str src ''StatelessWidget'' \<or> includes_str src ''StatefulWidget'')
                \<and> \<not> includes_str src material_import
             then errs @
               [\<lparr>err_line = 1, err_column = 1,
                 err_message = ''Missing required import: '' @ material_import @ '';'',
                 err_severity = error, err_code = Some ''missing_import''\<rparr>]
             else errs);
          hasStatefulWidget = includes_str src ''extends StatefulWidget'';
          hasStateClass = includes_str src ''extends State<'';
          errs2 =
            (if hasStatefulWidget \<and> \<not> hasStateClass
             then errs1 @
               [\<lparr>err_line = 1, err_column = 1,
                 err_message = ''StatefulWidget requires a corresponding State class'',
                 err_severity = error, err_code = Some ''missing_state_class''\<rparr>]
             else errs1)
      in if (includes_str src ''extends StatelessWidget'' \<or> includes_str src ''extends State<'')
            \<and> \<not> includes_str src ''Widget build(BuildContext context)''
         then errs2 @
           [\<lparr>err_line = 1, err_column = 1,
             err_message = ''Widget classes must have a build method'',
             err_severity = error, err_code = Some ''missing_build_method''\<rparr>]
         else errs2)"

subsection \<open>formatDartCode\<close>

text \<open>
  \<^verbatim>\<open>/(\w)([+\-*/%=<>!&|])(\w)/g\<close> and \<^verbatim>\<open>/(\w)([+\-*/%])(\w)/g\<close>, both replaced by
  \<^verbatim>\<open>'$1 $2 $3'\<close>; \<^verbatim>\<open>/,(\S)/g\<close> by \<^verbatim>\<open>', $1'\<close> and \<^verbatim>\<open>/;(\S)/g\<close> by \<^verbatim>\<open>'; $1'\<close>.
\<close>

definition rx_operator :: rx where
  "rx_operator =
     seqs [Grp 1 wordc,
           Grp 2 (Sym (Inc (map IChr ''+-*/%=<>!&|''))),
           Grp 3 wordc]"

definition rx_arith :: rx where
  "rx_arith = seqs [Grp 1 wordc, Grp 2 (Sym (Inc (map IChr ''+-*/%''))), Grp 3 wordc]"

definition rx_comma :: rx where
  "rx_comma = seqs [lit '','', Grp 1 (Sym (Exc [ISpace]))]"

definition rx_semicolon :: rx where
  "rx_semicolon = seqs [lit '';'', Grp 1 (Sym (Exc [ISpace]))]"

definition spaced :: "string \<Rightarrow> captures \<Rightarrow> string" where
  "spaced m cs = group cs 1 @ '' '' @ group cs 2 @ '' '' @ group cs 3"

text \<open>
  The indentation pass: one level down before a line that starts with a closing bracket
  (never below zero), one level up after a line that ends with an opening one.
\<close>

definition closes_block :: "string \<Rightarrow> bool" where
  "closes_block trimmed =
     (startsWith trimmed ''}'' \<or> startsWith trimmed '']'' \<or> startsWith trimmed '')''
      \<or> startsWith trimmed ''})'' \<or> startsWith trimmed ''],'' \<or> startsWith trimmed ''),'')"

definition opens_block :: "string \<Rightarrow> bool" where
  "opens_block trimmed =
     (endsWith trimmed ''{'' \<or> endsWith trimmed ''['' \<or> endsWith trimmed ''(''
      \<or> rx_test False (seqs [lit ''{'', ws0, Eol]) trimmed
      \<or> rx_test False (seqs [lit ''['', ws0, Eol]) trimmed
      \<or> rx_test False (seqs [lit ''('', ws0, Eol]) trimmed)"

fun format_lines :: "nat \<Rightarrow> string list \<Rightarrow> string list" where
  "format_lines indentLevel [] = []"
| "format_lines indentLevel (line # rest) =
     (let trimmed = trim line in
      if trimmed = [] then [] # format_lines indentLevel rest
      else
        let level1 = (if closes_block trimmed then indentLevel - 1 else indentLevel);
            indentedLine = replicate (level1 * 2) (CHR '' '') @ trimmed;
            level2 = (if opens_block trimmed then Suc level1 else level1)
        in indentedLine # format_lines level2 rest)"

definition formatDartCode :: "string \<Rightarrow> string" where
  "formatDartCode src =
     (let f1 = replace_all False rx_operator spaced src;
          f2 = replace_all False rx_arith spaced f1;
          f3 = replace_all False rx_comma (\<lambda>m cs. '', '' @ group cs 1) f2;
          f4 = replace_all False rx_semicolon (\<lambda>m cs. ''; '' @ group cs 1) f3
      in join [CHR 0x0A] (format_lines 0 (split_on (CHR 0x0A) f4)))"

subsection \<open>validateDartCode\<close>

fun validate_lines ::
  "nat \<Rightarrow> string list \<Rightarrow> DartValidationError list \<Rightarrow> DartValidationError list
     \<Rightarrow> DartValidationError list \<times> DartValidationError list" where
  "validate_lines i [] errs warns = (errs, warns)"
| "validate_lines i (line # rest) errs warns =
     (let lineNumber = i + 1;
          errs1 = checkBasicSyntax line lineNumber errs;
          warns1 = checkFlutterPatterns line lineNumber warns;
          warns2 = checkBestPractices line lineNumber warns1
      in validate_lines (i + 1) rest errs1 warns2)"

definition validateDartCode :: "string \<Rightarrow> DartValidationResult" where
  "validateDartCode src =
     (let lines = split_on (CHR 0x0A) src;
          (errs, warns) = validate_lines 0 lines [] [];
          errs2 = checkOverallStructure src errs warns
      in \<lparr>isValid = (length errs2 = 0), errors = errs2, warnings = warns,
           formattedCode = Some (formatDartCode src)\<rparr>)"

subsection \<open>analyzeComplexity\<close>

record ComplexityReport =
  cyclomaticComplexity :: nat
  linesOfCode :: nat
  numberOfMethods :: nat
  nestingDepth :: int

text \<open>\<^verbatim>\<open>/\b(if|else|for|while|case|catch|&&|\|\||\?)\b/g\<close> and \<^verbatim>\<open>/\b(\w+)\s*\([^)]*\)\s*{/g\<close>\<close>

definition rx_decision :: rx where
  "rx_decision =
     seqs [Wb,
           Grp 1 (lits [''if'', ''else'', ''for'', ''while'', ''case'', ''catch'', ''&&'', ''||'',
                        ''?'']),
           Wb]"

definition rx_method :: rx where
  "rx_method =
     seqs [Wb, Grp 1 word1, ws0, lit ''('', star (Sym (Exc [IChr CHR '')''])), lit '')'', ws0,
           lit ''{'']"

definition count_char :: "char \<Rightarrow> string \<Rightarrow> nat" where
  "count_char c s = length (filter (\<lambda>x. x = c) s)"

fun nesting :: "int \<Rightarrow> int \<Rightarrow> string list \<Rightarrow> int" where
  "nesting currentDepth maxDepth [] = maxDepth"
| "nesting currentDepth maxDepth (line # rest) =
     (let openBraces = count_char CHR ''{'' line;
          closeBraces = count_char CHR ''}'' line;
          depth = currentDepth + (int openBraces - int closeBraces)
      in nesting depth (max maxDepth depth) rest)"

definition analyzeComplexity :: "string \<Rightarrow> ComplexityReport" where
  "analyzeComplexity src =
     (let lines = filter (\<lambda>line. trim line \<noteq> [] \<and> \<not> startsWith (trim line) ''//'')
                    (split_on (CHR 0x0A) src);
          decisionPoints = length (match_all False rx_decision src);
          methods = length (match_all False rx_method src)
      in \<lparr>cyclomaticComplexity = decisionPoints + 1, linesOfCode = length lines,
           numberOfMethods = methods, nestingDepth = nesting 0 0 lines\<rparr>)"

section \<open>The edit-intent classifier (flutter-package-manager.ts, second module)\<close>

subsection \<open>The file manifest and the intent types (types/file-manifest)\<close>

text \<open>
  \<open>manifest.files\<close> is a \<open>Record<string, FileInfo>\<close>; the classifier walks it with
  \<open>Object.keys\<close> and \<open>Object.entries\<close>, so it is an association list in that enumeration
  order, with distinct keys. Only the fields the classifier reads are kept: \<open>routes\<close>,
  \<open>componentTree\<close>, and the type tag, import and export lists of a file are never read by it.
\<close>

record ComponentInfo =
  component_name :: string
  component_hasState :: bool

record FlutterWidgetInfo =
  widget_name :: string
  widget_hasState :: bool

record FileInfo =
  content :: string
  lastModified :: int
  componentInfo :: "ComponentInfo option"
  flutterInfo :: "FlutterWidgetInfo option"

record FileManifest =
  files :: "(string \<times> FileInfo) list"
  entryPoint :: string
  styleFiles :: "string list"
  timestamp :: int

datatype EditType =
    UPDATE_COMPONENT | ADD_FEATURE | FIX_ISSUE | REFACTOR | FULL_REBUILD | UPDATE_STYLE
  | ADD_DEPENDENCY | CREATE_FLUTTER_WIDGET | CREATE_FLUTTER_SCREEN | UPDATE_FLUTTER_WIDGET
  | ADD_FLUTTER_NAVIGATION | ADD_FLUTTER_PACKAGE

record EditIntent =
  intent_type :: EditType
  targetFiles :: "string list"
  confidence :: rat
  description :: string
  suggestedContext :: "string list"

record IntentPattern =
  patterns :: "rx list"
  pattern_type :: EditType
  fileResolver :: "string \<Rightarrow> FileManifest \<Rightarrow> string list"

definition keys :: "FileManifest \<Rightarrow> string list" where
  "keys manifest = map fst (files manifest)"

text \<open>\<open>path.split('/').pop()?.toLowerCase() || ''\<close>\<close>

definition fileNameOf :: "string \<Rightarrow> string" where
  "fileNameOf path = toLowerCase (last (split_on (CHR ''/'') path))"

subsection \<open>Name extraction\<close>

text \<open>
  \<^verbatim>\<open>/\b(the|a|an|in|on|to|from|update|change|modify|edit|fix|make)\b/gi\<close> and
  \<^verbatim>\<open>/\b\w+\b/g\<close>
\<close>

definition rx_stop_words :: rx where
  "rx_stop_words =
     seqs [Wb,
           Grp 1 (lits [''the'', ''a'', ''an'', ''in'', ''on'', ''to'', ''from'', ''update'',
                        ''change'', ''modify'', ''edit'', ''fix'', ''make'']),
           Wb]"

definition rx_word :: rx where
  "rx_word = seqs [Wb, word1, Wb]"

definition extractComponentNames :: "string \<Rightarrow> string list" where
  "extractComponentNames prompt =
     (let cleanPrompt = toLowerCase (replace_all True rx_stop_words (\<lambda>m cs. []) prompt);
          matches = match_strings False rx_word cleanPrompt
      in filter (\<lambda>m. 2 < length m) matches)"

text \<open>
  \<^verbatim>\<open>/\b(the|a|an|in|on|to|from|update|change|modify|edit|fix|make|create|build|widget|screen)\b/gi\<close>
\<close>

definition rx_flutter_stop_words :: rx where
  "rx_flutter_stop_words =
     seqs [Wb,
           Grp 1 (lits [''the'', ''a'', ''an'', ''in'', ''on'', ''to'', ''from'', ''update'',
                        ''change'', ''modify'', ''edit'', ''fix'', ''make'', ''create'', ''build'',
                        ''widget'', ''screen'']),
           Wb]"

definition extractFlutterWidgetNames :: "string \<Rightarrow> string list" where
  "extractFlutterWidgetNames prompt =
     (let cleanPrompt = toLowerCase (replace_all True rx_flutter_stop_words (\<lambda>m cs. []) prompt);
          matches = match_strings False rx_word cleanPrompt;
          found = filter (\<lambda>m. 2 < length m) matches;
          flutterKeywords = [''appbar'', ''scaffold'', ''container'', ''column'', ''row'',
                             ''button'', ''card'', ''list'', ''fab'']
      in found @ filter (\<lambda>keyword. includes_str (toLowerCase prompt) keyword) flutterKeywords)"

subsection \<open>File resolvers\<close>

definition uiElements :: "string list" where
  "uiElements =
     [''header'', ''footer'', ''nav'', ''sidebar'', ''button'', ''card'', ''modal'', ''hero'',
      ''banner'', ''about'', ''services'', ''features'', ''testimonials'', ''gallery'',
      ''contact'', ''team'', ''pricing'']"

text \<open>
  The second pass of \<open>findComponentFiles\<close>: for the first element named in the prompt that
  some file name matches, exactly (\<open>element.\<close> inside the name, or the whole name) before
  partially, that one file.
\<close>

fun uiElementSearch :: "string list \<Rightarrow> string \<Rightarrow> (string \<times> FileInfo) list \<Rightarrow> string option" where
  "uiElementSearch [] lowerPrompt entries = None"
| "uiElementSearch (element # rest) lowerPrompt entries =
     (if includes_str lowerPrompt element then
        (case find (\<lambda>(path, fileInfo). includes_str (fileNameOf path) (element @ ''.'')
                                        \<or> fileNameOf path = element) entries of
           Some (path, fileInfo) \<Rightarrow> Some path
         | None \<Rightarrow>
             (case find (\<lambda>(path, fileInfo). includes_str (fileNameOf path) element) entries of
                Some (path, fileInfo) \<Rightarrow> Some path
              | None \<Rightarrow> uiElementSearch rest lowerPrompt entries))
      else uiElementSearch rest lowerPrompt entries)"

definition findComponentFiles :: "string \<Rightarrow> FileManifest \<Rightarrow> string list" where
  "findComponentFiles prompt manifest =
     (let lowerPrompt = toLowerCase prompt;
          componentWords = extractComponentNames prompt;
          found = map fst (filter (\<lambda>(path, fileInfo).
                    let fileName = fileNameOf path;
                        componentName =
                          map_option (\<lambda>c. toLowerCase (component_name c)) (componentInfo fileInfo)
                    in list_ex (\<lambda>word. includes_str fileName word
                                  \<or> (case componentName of None \<Rightarrow> False
                                      | Some n \<Rightarrow> includes_str n word)) componentWords)
                  (files manifest))
      in if found = [] then
           (case uiElementSearch uiElements lowerPrompt (files manifest) of
              Some path \<Rightarrow> [path]
            | None \<Rightarrow> [entryPoint manifest])
         else if 1 < length found then [hd found]
         else found)"

text \<open>\<^verbatim>\<open>/(?:in|to|on|inside)\s+(?:the\s+)?(\w+)/i\<close>\<close>

definition rx_location :: rx where
  "rx_location =
     seqs [lits [''in'', ''to'', ''on'', ''inside''], ws1, opt (Seq (lit ''the'') ws1),
           Grp 1 word1]"

definition findFeatureInsertionPoints :: "string \<Rightarrow> FileManifest \<Rightarrow> string list" where
  "findFeatureInsertionPoints prompt manifest =
     (let lowerPrompt = toLowerCase prompt;
          files1 =
            (if includes_str lowerPrompt ''page'' then
               map fst (filter (\<lambda>(path, fileInfo).
                           includes_str (content fileInfo) ''Route''
                         \<or> includes_str (content fileInfo) ''createBrowserRouter''
                         \<or> includes_str path ''router''
                         \<or> includes_str path ''routes'') (files manifest))
               @ (if entryPoint manifest \<noteq> [] then [entryPoint manifest] else [])
             else []);
          files2 =
            (if includes_str lowerPrompt ''component'' \<or> includes_str lowerPrompt ''section''
                \<or> includes_str lowerPrompt ''add'' \<or> includes_str lowerPrompt ''create''
             then
               (case rx_match True rx_location prompt of
                  Some cs \<Rightarrow> files1 @ findComponentFiles (group cs 1) manifest
                | None \<Rightarrow>
                    let files3 =
                          files1 @ concat (map (\<lambda>word.
                              let relatedFiles = findComponentFiles word manifest in
                              if 0 < length relatedFiles \<and> hd relatedFiles \<noteq> entryPoint manifest
                              then relatedFiles else [])
                            (extractComponentNames prompt))
                    in if files3 = [] then [entryPoint manifest] else files3)
             else files1)
      in dedup files2)"

text \<open>\<^verbatim>\<open>/error|bug|issue|problem|broken|not working/i\<close>\<close>

definition rx_problem :: rx where
  "rx_problem =
     lits [''error'', ''bug'', ''issue'', ''problem'', ''broken'', ''not working'']"

text \<open>
  \<open>sort\<close> with the comparator \<open>b.lastModified - a.lastModified\<close> is a stable sort by
  descending modification time.
\<close>

definition findProblemFiles :: "string \<Rightarrow> FileManifest \<Rightarrow> string list" where
  "findProblemFiles prompt manifest =
     (let recent =
            (if rx_test True rx_problem prompt then
               map fst (take 5 (sort_key (\<lambda>(path, fileInfo). - lastModified fileInfo)
                                  (files manifest)))
             else [])
      in dedup (recent @ findComponentFiles prompt manifest))"

definition findStyleFiles :: "string \<Rightarrow> FileManifest \<Rightarrow> string list" where
  "findStyleFiles prompt manifest =
     styleFiles manifest
       @ (case find (\<lambda>path. includes_str path ''tailwind.config'') (keys manifest) of
            Some tailwindConfig \<Rightarrow> [tailwindConfig]
          | None \<Rightarrow> [])
       @ findComponentFiles prompt manifest"

definition findRefactorTargets :: "string \<Rightarrow> FileManifest \<Rightarrow> string list" where
  "findRefactorTargets prompt manifest = findComponentFiles prompt manifest"

definition findPackageFiles :: "FileManifest \<Rightarrow> string list" where
  "findPackageFiles manifest =
     filter (\<lambda>path. endsWith path ''package.json'' \<or> endsWith path ''vite.config.js''
                   \<or> endsWith path ''tsconfig.json'') (keys manifest)"

text \<open>
  \<^verbatim>\<open>/["']([^"']+)["']/g\<close>, \<^verbatim>\<open>/["']/g\<close> and
  \<^verbatim>\<open>/(?:remove|delete|hide)\s+(?:the\s+)?(.+?)(?:\s+button|\s+link|\s+text|\s+element|\s+section|$)/i\<close>
\<close>

definition quote_chars :: "citem list" where
  "quote_chars = [IChr (CHR 0x22), IChr (CHR 0x27)]"

definition rx_quoted :: rx where
  "rx_quoted = seqs [Sym (Inc quote_chars), Grp 1 (plus (Sym (Exc quote_chars))), Sym (Inc quote_chars)]"

definition rx_action :: rx where
  "rx_action =
     seqs [lits [''remove'', ''delete'', ''hide''], ws1, opt (Seq (lit ''the'') ws1),
           Grp 1 (lazy_plus (Sym Dot)),
           alts [Seq ws1 (lit ''button''), Seq ws1 (lit ''link''), Seq ws1 (lit ''text''),
                 Seq ws1 (lit ''element''), Seq ws1 (lit ''section''), Eol]]"

definition findComponentByContent :: "string \<Rightarrow> FileManifest \<Rightarrow> string list" where
  "findComponentByContent prompt manifest =
     (let quotedStrings = match_strings False rx_quoted prompt;
          searchTerms0 = map (filter (\<lambda>c. c \<noteq> CHR 0x22 \<and> c \<noteq> CHR 0x27)) quotedStrings;
          searchTerms =
            (case rx_match True rx_action prompt of
               Some cs \<Rightarrow> searchTerms0 @ [trim (group cs 1)]
             | None \<Rightarrow> searchTerms0);
          found =
            (if 0 < length searchTerms then
               map fst (filter (\<lambda>(path, fileInfo).
                          (includes_str path ''.jsx'' \<or> includes_str path ''.tsx'')
                        \<and> list_ex (\<lambda>t. includes_str (toLowerCase (content fileInfo))
                                                     (toLowerCase t)) searchTerms)
                        (files manifest))
             else [])
      in if found = [] then findComponentFiles prompt manifest else [hd found])"

definition findFlutterInsertionPoints :: "string \<Rightarrow> FileManifest \<Rightarrow> string list" where
  "findFlutterInsertionPoints prompt manifest =
     (let flutterFiles =
            filter (\<lambda>path. endsWith path ''.dart''
                         \<and> (includes_str path ''lib/'' \<or> includes_str path ''widgets/''))
                   (keys manifest)
      in if 0 < length flutterFiles then
           (case find (\<lambda>f. includes_str f ''main.dart'') flutterFiles of
              Some mainFile \<Rightarrow> [mainFile]
            | None \<Rightarrow> [hd flutterFiles])
         else [entryPoint manifest])"

definition findFlutterScreenInsertionPoints :: "string \<Rightarrow> FileManifest \<Rightarrow> string list" where
  "findFlutterScreenInsertionPoints prompt manifest =
     (let screenFiles =
            filter (\<lambda>path. endsWith path ''.dart''
                         \<and> (includes_str path ''screens/'' \<or> includes_str path ''pages/''
                            \<or> includes_str path ''lib/''))
                   (keys manifest);
          mainFile =
            (case find (\<lambda>f. includes_str f ''main.dart'') screenFiles of
               Some f \<Rightarrow> Some f
             | None \<Rightarrow> find (\<lambda>f. includes_str f ''app.dart'') screenFiles)
      in case mainFile of
           Some f \<Rightarrow> [f]
         | None \<Rightarrow> [entryPoint manifest])"

definition flutterElements :: "string list" where
  "flutterElements =
     [''button'', ''card'', ''list'', ''container'', ''column'', ''row'', ''scaffold'']"

fun flutterElementSearch :: "string list \<Rightarrow> string \<Rightarrow> string list \<Rightarrow> string option" where
  "flutterElementSearch [] lowerPrompt paths = None"
| "flutterElementSearch (element # rest) lowerPrompt paths =
     (if includes_str lowerPrompt element then
        (case find (\<lambda>path. endsWith path ''.dart'' \<and> includes_str (fileNameOf path) element)
                paths of
           Some path \<Rightarrow> Some path
         | None \<Rightarrow> flutterElementSearch rest lowerPrompt paths)
      else flutterElementSearch rest lowerPrompt paths)"

definition findFlutterWidgetFiles :: "string \<Rightarrow> FileManifest \<Rightarrow> string list" where
  "findFlutterWidgetFiles prompt manifest =
     (let lowerPrompt = toLowerCase prompt;
          widgetWords = extractFlutterWidgetNames prompt;
          found = map fst (filter (\<lambda>(path, fileInfo).
                    endsWith path ''.dart''
                  \<and> (let fileName = fileNameOf path;
                          widgetName =
                            map_option (\<lambda>w. toLowerCase (widget_name w)) (flutterInfo fileInfo)
                      in list_ex (\<lambda>word. includes_str fileName (toLowerCase word)
                                    \<or> (case widgetName of None \<Rightarrow> False
                                        | Some n \<Rightarrow> includes_str n (toLowerCase word)))
                           widgetWords))
                  (files manifest))
      in if found = [] then
           (case flutterElementSearch flutterElements lowerPrompt (keys manifest) of
              Some path \<Rightarrow> [path]
            | None \<Rightarrow> findFlutterInsertionPoints prompt manifest)
         else found)"

definition findFlutterNavigationFiles :: "string \<Rightarrow> FileManifest \<Rightarrow> string list" where
  "findFlutterNavigationFiles prompt manifest =
     (let navigationFiles =
            filter (\<lambda>path. endsWith path ''.dart''
                         \<and> (includes_str path ''main.dart'' \<or> includes_str path ''app.dart''
                            \<or> includes_str path ''home.dart'' \<or> includes_str path ''navigation''))
                   (keys manifest)
      in if navigationFiles = [] then findFlutterInsertionPoints prompt manifest
         else navigationFiles)"

definition findFlutterPackageFiles :: "FileManifest \<Rightarrow> string list" where
  "findFlutterPackageFiles manifest =
     (let found = filter (\<lambda>path. endsWith path ''pubspec.yaml'' \<or> endsWith path ''pubspec.yml'')
                    (keys manifest)
      in if found = [] then [''pubspec.yaml''] else found)"

subsection \<open>Context, confidence and description\<close>

definition getSuggestedContext :: "string list \<Rightarrow> FileManifest \<Rightarrow> string list" where
  "getSuggestedContext targets manifest =
     (let allFiles = keys manifest in filter (\<lambda>file. file \<notin> set targets) allFiles)"

text \<open>
  \<open>prompt.split(' ')\<close> cuts at every single space character. The score is a JavaScript
  number: the literals \<open>0.2\<close>, \<open>0.1\<close> and \<open>0.2\<close> are added to \<open>0.5\<close> one after the other, every
  sum rounded, and \<open>Math.min\<close> compares the result with \<open>1.0\<close>.
\<close>

definition calculateConfidence :: "string \<Rightarrow> IntentPattern \<Rightarrow> string list \<Rightarrow> rat" where
  "calculateConfidence prompt pattern targets =
     (let c0 = js_number (5 / 10);
          c1 = (if 0 < length targets \<and> hd targets \<noteq> [] then js_add c0 (js_number (2 / 10))
                else c0);
          c2 = (if 5 < length (split_on (CHR '' '') prompt) then js_add c1 (js_number (1 / 10))
                else c1);
          c3 = (if list_ex (\<lambda>regex. rx_test True regex prompt) (patterns pattern)
                then js_add c2 (js_number (2 / 10)) else c2)
      in min c3 (js_number 1))"

definition generateDescription :: "EditType \<Rightarrow> string \<Rightarrow> string list \<Rightarrow> string" where
  "generateDescription t prompt targets =
     (let fileNames = join '', '' (map (\<lambda>f. last (split_on (CHR ''/'') f)) targets) in
      case t of
        UPDATE_COMPONENT \<Rightarrow> ''Updating component(s): '' @ fileNames
      | ADD_FEATURE \<Rightarrow> ''Adding new feature to: '' @ fileNames
      | FIX_ISSUE \<Rightarrow> ''Fixing issue in: '' @ fileNames
      | UPDATE_STYLE \<Rightarrow> ''Updating styles in: '' @ fileNames
      | REFACTOR \<Rightarrow> ''Refactoring: '' @ fileNames
      | FULL_REBUILD \<Rightarrow> ''Rebuilding entire application''
      | ADD_DEPENDENCY \<Rightarrow> ''Adding new dependency''
      | CREATE_FLUTTER_WIDGET \<Rightarrow> ''Creating Flutter widget in: '' @ fileNames
      | CREATE_FLUTTER_SCREEN \<Rightarrow> ''Creating Flutter screen in: '' @ fileNames
      | UPDATE_FLUTTER_WIDGET \<Rightarrow> ''Updating Flutter widget in: '' @ fileNames
      | ADD_FLUTTER_NAVIGATION \<Rightarrow> ''Adding Flutter navigation to: '' @ fileNames
      | ADD_FLUTTER_PACKAGE \<Rightarrow> ''Adding Flutter package to: '' @ fileNames)"

subsection \<open>The pattern table and analyzeEditIntent\<close>

text \<open>
  The building blocks of the table: \<^verbatim>\<open>(a\s+)?\<close>, \<^verbatim>\<open>(the\s+)?\<close>, a phrase of words separated by
  \<^verbatim>\<open>\s+\<close>, and the two recurring shapes \<^verbatim>\<open>verb\s+(a\s+)?(\w+)\s+(n1|n2|...)\<close> and
  \<^verbatim>\<open>verb\s+(the\s+)?(\w+)\s+(n1|n2|...)\<close>.
\<close>

definition a_opt :: "nat \<Rightarrow> rx" where
  "a_opt n = opt (Grp n (Seq (lit ''a'') ws1))"

definition the_opt :: "nat \<Rightarrow> rx" where
  "the_opt n = opt (Grp n (Seq (lit ''the'') ws1))"

primrec phrase :: "string list \<Rightarrow> rx" where
  "phrase [] = Eps"
| "phrase (w # ws) = (if ws = [] then lit w else Seq (lit w) (Seq ws1 (phrase ws)))"

definition verb_a :: "string \<Rightarrow> string list \<Rightarrow> rx" where
  "verb_a verb nouns = seqs [lit verb, ws1, a_opt 1, Grp 2 word1, ws1, Grp 3 (lits nouns)]"

definition verb_the :: "string \<Rightarrow> string list \<Rightarrow> rx" where
  "verb_the verb nouns = seqs [lit verb, ws1, the_opt 1, Grp 2 word1, ws1, Grp 3 (lits nouns)]"

definition verb_the_word :: "string \<Rightarrow> rx" where
  "verb_the_word verb = seqs [lit verb, ws1, the_opt 1, Grp 2 word1]"

text \<open>
  The two Korean expressions of the screen group,
  \<^verbatim>\<open>/([\uAC00-\uD7AF]+)\s*(h1|h2|h3)\s*(h4|h5|h6)/i\<close> and \<^verbatim>\<open>/(h1|h2|h3).*(h4|h5|h6)/i\<close>
  (\<open>h1\<close> to \<open>h6\<close> standing for six Hangul words), need at least one Hangul word from
  their literal alternatives, so on the strings of this model, whose characters lie below
  256, they match nothing.
\<close>

definition rx_hangul_only :: rx where
  "rx_hangul_only = alts []"

definition createFlutterWidgetPatterns :: "rx list" where
  "createFlutterWidgetPatterns =
     [verb_a ''create'' [''widget'', ''screen''],
      verb_a ''build'' [''widget'', ''screen''],
      verb_a ''make'' [''widget'', ''screen''],
      seqs [lit ''add'', ws1, a_opt 1, lit ''new'', ws1, Grp 2 word1, ws1,
            Grp 3 (lits [''widget'', ''screen''])],
      verb_a ''implement'' [''widget'', ''screen'']]"

definition createFlutterScreenPatterns :: "rx list" where
  "createFlutterScreenPatterns =
     [verb_a ''create'' [''screen'', ''page''],
      verb_a ''build'' [''screen'', ''page''],
      verb_a ''make'' [''screen'', ''page''],
      seqs [lit ''new'', ws1, Grp 1 (lits [''screen'', ''page''])],
      seqs [lit ''add'', ws1, a_opt 1, lit ''new'', ws1, opt (Grp 2 (Seq word1 ws1)),
            Grp 3 (lits [''screen'', ''page''])],
      rx_hangul_only,
      rx_hangul_only]"

definition updateFlutterWidgetPatterns :: "rx list" where
  "updateFlutterWidgetPatterns =
     [verb_the ''update'' [''widget''], verb_the ''change'' [''widget''],
      verb_the ''modify'' [''widget''], verb_the ''edit'' [''widget'']]"

definition app_bar :: rx where
  "app_bar = seqs [lit ''app'', opt (Sym (Inc [ISpace])), lit ''bar'']"

definition tab_bar :: rx where
  "tab_bar = seqs [lit ''tab'', opt (Sym (Inc [ISpace])), lit ''bar'']"

definition addFlutterNavigationPatterns :: "rx list" where
  "addFlutterNavigationPatterns =
     [seqs [lit ''add'', ws1, a_opt 1, app_bar],
      seqs [lit ''implement'', ws1, app_bar],
      seqs [lit ''create'', ws1, app_bar],
      seqs [lit ''add'', ws1, a_opt 1, phrase [''bottom'', ''navigation'']],
      phrase [''implement'', ''bottom'', ''navigation''],
      seqs [lit ''add'', ws1, a_opt 1, phrase [''floating'', ''action'', ''button'']],
      seqs [lit ''add'', ws1, a_opt 1, lit ''fab''],
      phrase [''implement'', ''navigation''],
      phrase [''add'', ''navigation''],
      seqs [lit ''add'', ws1, tab_bar],
      seqs [lit ''implement'', ws1, tab_bar]]"

definition addFlutterPackagePatterns :: "rx list" where
  "addFlutterPackagePatterns =
     [seqs [phrase [''add'', ''flutter''], ws1, opt (Grp 1 (Seq word1 ws1)),
            Grp 2 (lits [''package'', ''dependency''])],
      seqs [phrase [''install'', ''flutter''], ws1, opt (Grp 1 (Seq word1 ws1)),
            Grp 2 (lits [''package'', ''dependency''])],
      seqs [phrase [''use'', ''flutter''], ws1, Grp 1 (lits [''package'', ''library''])],
      seqs [lit ''add'', ws1, Grp 1 word1, ws1, lit ''flutter'', ws1,
            Grp 2 (lits [''package'', ''library''])],
      phrase [''flutter'', ''pub'', ''add''],
      seqs [lit ''add'', ws1, Grp 1 word1, ws1, Grp 2 (lits [''package'', ''dependency''])],
      seqs [lit ''install'', ws1, Grp 1 word1, ws1, Grp 2 (lits [''package'', ''dependency''])]]"

definition removal :: "string \<Rightarrow> rx" where
  "removal verb =
     seqs [lit verb, ws1, star (Sym Dot), ws1,
           Grp 1 (lits [''button'', ''link'', ''text'', ''element'', ''section''])]"

definition updateComponentPatterns :: "rx list" where
  "updateComponentPatterns =
     [verb_the ''update'' [''component'', ''section'', ''page''],
      verb_the_word ''change'',
      verb_the_word ''modify'',
      verb_the_word ''edit'',
      verb_the ''fix'' [''styling'', ''style'', ''css'', ''layout''],
      removal ''remove'',
      removal ''delete'',
      removal ''hide'']"

definition addFeaturePatterns :: "rx list" where
  "addFeaturePatterns =
     [seqs [lit ''add'', ws1, a_opt 1, lit ''new'', ws1, Grp 2 word1, ws1,
            Grp 3 (lits [''page'', ''section'', ''feature'', ''component''])],
      verb_a ''create'' [''page'', ''section'', ''feature'', ''component''],
      verb_a ''implement'' [''page'', ''section'', ''feature''],
      verb_a ''build'' [''page'', ''section'', ''feature''],
      seqs [lit ''add'', ws1, Grp 1 word1, ws1, lit ''to'', ws1, opt (Seq (lit ''the'') ws1),
            Grp 2 word1],
      seqs [lit ''add'', ws1, opt (Seq (lit ''a'') ws1), Grp 1 word1, ws1,
            lits [''component'', ''section'']],
      seqs [lit ''include'', ws1, opt (Seq (lit ''a'') ws1), Grp 1 word1]]"

text \<open>\<^verbatim>\<open>/fix\s+(the\s+)?(\w+|\w+\s+\w+)(?!\s+styling|\s+style)/i\<close>\<close>

definition fixIssuePatterns :: "rx list" where
  "fixIssuePatterns =
     [seqs [lit ''fix'', ws1, the_opt 1, Grp 2 (Alt word1 (seqs [word1, ws1, word1])),
            NLook (Alt (Seq ws1 (lit ''styling'')) (Seq ws1 (lit ''style'')))],
      seqs [lit ''resolve'', ws1, the_opt 1, lit ''error''],
      verb_the_word ''debug'',
      verb_the_word ''repair'']"

definition updateStylePatterns :: "rx list" where
  "updateStylePatterns =
     [seqs [lit ''change'', ws1, the_opt 1,
            Grp 2 (lits [''color'', ''theme'', ''style'', ''styling'', ''css''])],
      seqs [lit ''update'', ws1, the_opt 1,
            Grp 2 (lits [''color'', ''theme'', ''style'', ''styling'', ''css''])],
      seqs [phrase [''make'', ''it''], ws1,
            Grp 1 (lits [''dark'', ''light'', ''blue'', ''red'', ''green''])],
      verb_the_word ''style'']"

definition refactorPatterns :: "rx list" where
  "refactorPatterns =
     [verb_the_word ''refactor'',
      seqs [phrase [''clean'', ''up''], ws1, the_opt 1, lit ''code''],
      verb_the_word ''reorganize'',
      verb_the_word ''optimize'']"

definition fullRebuildPatterns :: "rx list" where
  "fullRebuildPatterns =
     [phrase [''start'', ''over''],
      phrase [''recreate'', ''everything''],
      seqs [lit ''rebuild'', ws1, the_opt 1, lit ''app''],
      phrase [''new'', ''app''],
      phrase [''from'', ''scratch'']]"

definition addDependencyPatterns :: "rx list" where
  "addDependencyPatterns =
     [seqs [lit ''install'', ws1, Grp 1 word1],
      seqs [lit ''add'', ws1, Grp 1 word1, ws1,
            Grp 2 (lits [''package'', ''library'', ''dependency''])],
      seqs [lit ''use'', ws1, Grp 1 word1, ws1, Grp 2 (lits [''library'', ''framework''])]]"

definition intentPatterns :: "IntentPattern list" where
  "intentPatterns =
     [\<lparr>patterns = createFlutterWidgetPatterns, pattern_type = CREATE_FLUTTER_WIDGET,
       fileResolver = findFlutterInsertionPoints\<rparr>,
      \<lparr>patterns = createFlutterScreenPatterns, pattern_type = CREATE_FLUTTER_SCREEN,
       fileResolver = findFlutterScreenInsertionPoints\<rparr>,
      \<lparr>patterns = updateFlutterWidgetPatterns, pattern_type = UPDATE_FLUTTER_WIDGET,
       fileResolver = findFlutterWidgetFiles\<rparr>,
      \<lparr>patterns = addFlutterNavigationPatterns, pattern_type = ADD_FLUTTER_NAVIGATION,
       fileResolver = findFlutterNavigationFiles\<rparr>,
      \<lparr>patterns = addFlutterPackagePatterns, pattern_type = ADD_FLUTTER_PACKAGE,
       fileResolver = (\<lambda>p m. findFlutterPackageFiles m)\<rparr>,
      \<lparr>patterns = updateComponentPatterns, pattern_type = UPDATE_COMPONENT,
       fileResolver = findComponentByContent\<rparr>,
      \<lparr>patterns = addFeaturePatterns, pattern_type = ADD_FEATURE,
       fileResolver = findFeatureInsertionPoints\<rparr>,
      \<lparr>patterns = fixIssuePatterns, pattern_type = FIX_ISSUE,
       fileResolver = findProblemFiles\<rparr>,
      \<lparr>patterns = updateStylePatterns, pattern_type = UPDATE_STYLE,
       fileResolver = findStyleFiles\<rparr>,
      \<lparr>patterns = refactorPatterns, pattern_type = REFACTOR,
       fileResolver = findRefactorTargets\<rparr>,
      \<lparr>patterns = fullRebuildPatterns, pattern_type = FULL_REBUILD,
       fileResolver = (\<lambda>p m. [entryPoint m])\<rparr>,
      \<lparr>patterns = addDependencyPatterns, pattern_type = ADD_DEPENDENCY,
       fileResolver = (\<lambda>p m. findPackageFiles m)\<rparr>]"

text \<open>
  The two nested loops of \<open>analyzeEditIntent\<close> return at the first group, in table order,
  one of whose expressions matches the lower-cased prompt.
\<close>

definition group_matches :: "string \<Rightarrow> IntentPattern \<Rightarrow> bool" where
  "group_matches lowerPrompt pattern =
     list_ex (\<lambda>regex. rx_test True regex lowerPrompt) (patterns pattern)"

definition matched_group :: "string \<Rightarrow> IntentPattern option" where
  "matched_group prompt = find (group_matches (toLowerCase prompt)) intentPatterns"

definition analyzeEditIntent :: "string \<Rightarrow> FileManifest \<Rightarrow> EditIntent" where
  "analyzeEditIntent prompt manifest =
     (case matched_group prompt of
        Some pattern \<Rightarrow>
          let targets = fileResolver pattern prompt manifest;
              suggested = getSuggestedContext targets manifest
          in \<lparr>intent_type = pattern_type pattern,
               targetFiles = targets,
               confidence = calculateConfidence prompt pattern targets,
               description = generateDescription (pattern_type pattern) prompt targets,
               suggestedContext = suggested\<rparr>
      | None \<Rightarrow>
          \<lparr>intent_type = UPDATE_COMPONENT,
           targetFiles = [entryPoint manifest],
           confidence = js_number (3 / 10),
           description = ''General update to application'',
           suggestedContext = []\<rparr>)"

section \<open>The template code generator (flutter-code-generator.ts)\<close>

subsection \<open>Configuration values\<close>

text \<open>
  The configuration is typed \<open>any\<close> and only read through \<open>config[key]\<close>. It is an object
  literal \<open>{ ...defaults, ...config }\<close>; the map holds its own properties, whose values are
  strings, booleans, arrays and objects (the fields of an object in \<open>Object.keys\<close> order). A
  read of a key that is no own property finds the member of \<open>Object.prototype\<close> of that name,
  \<open>JNative key\<close>: a built-in function, or \<open>Object.prototype\<close> itself under \<^verbatim>\<open>__proto__\<close>.
\<close>

datatype jsval =
    JStr string
  | JBool bool
  | JArr "jsval list"
  | JObj "(string \<times> jsval) list"
  | JNative string

type_synonym config = "string \<rightharpoonup> jsval"

text \<open>
  \<open>String(value)\<close> and the truth value of \<open>value\<close> in a condition. The text of a built-in
  function is the one V8 prints, \<^verbatim>\<open>function name() { [native code] }\<close>, where the member
  \<open>constructor\<close> is the function named \<open>Object\<close>.
\<close>

definition native_name :: "string \<Rightarrow> string" where
  "native_name key = (if key = ''constructor'' then ''Object'' else key)"

fun js_string :: "jsval \<Rightarrow> string" where
  "js_string (JStr s) = s"
| "js_string (JBool b) = (if b then ''true'' else ''false'')"
| "js_string (JArr xs) = join '','' (map js_string xs)"
| "js_string (JObj fs) = ''[object Object]''"
| "js_string (JNative key) =
     (if key = ''__proto__'' then ''[object Object]''
      else ''function '' @ native_name key @ ''() { [native code] }'')"

fun truthy :: "jsval \<Rightarrow> bool" where
  "truthy (JStr s) = (s \<noteq> [])"
| "truthy (JBool b) = b"
| "truthy (JArr xs) = True"
| "truthy (JObj fs) = True"
| "truthy (JNative key) = True"

text \<open>\<open>config[key.trim()]\<close>.\<close>

definition config_value :: "config \<Rightarrow> string \<Rightarrow> jsval option" where
  "config_value cfg key = js_get cfg JNative (trim key)"

subsection \<open>replaceTemplateVariables\<close>

text \<open>
  \<^verbatim>\<open>/\{\{([^}]+)\}\}/g\<close> at the head of a string: \<^verbatim>\<open>{{\<close>, the longest run of characters other
  than \<^verbatim>\<open>}\<close>, which must not be empty, and \<^verbatim>\<open>}}\<close>. A shorter run is followed by a character
  that is not \<^verbatim>\<open>}\<close>, so backtracking finds no other match. The result is the key and the
  text after the token.
\<close>

definition not_close :: "char \<Rightarrow> bool" where
  "not_close c = (c \<noteq> CHR ''}'')"

definition match_var :: "string \<Rightarrow> (string \<times> string) option" where
  "match_var s =
     (if startsWith s ''{{'' then
        let t = drop 2 s; key = takeWhile not_close t; r = dropWhile not_close t in
        if key \<noteq> [] \<and> startsWith r ''}}'' then Some (key, drop 2 r) else None
      else None)"

lemma match_var_shorter: "match_var s = Some (key, rest) \<Longrightarrow> length rest < length s"
proof -
  assume m: "match_var s = Some (key, rest)"
  then have "rest = drop 2 (dropWhile not_close (drop 2 s))" and "startsWith s ''{{''"
    by (auto simp: match_var_def Let_def split: if_splits)
  moreover have "length (dropWhile not_close (drop 2 s)) \<le> length (drop 2 s)"
    by (rule length_dropWhile_le)
  moreover have "2 \<le> length s" using \<open>startsWith s ''{{''\<close>
    by (cases s; cases "tl s") auto
  ultimately show ?thesis by simp
qed

text \<open>
  The global replace with the function replacer of the first pass: a token whose trimmed key
  is defined becomes \<open>String(value)\<close>, any other token stays; replaced text is not scanned
  again.
\<close>

function replace_vars :: "config \<Rightarrow> string \<Rightarrow> string" where
  "replace_vars cfg [] = []"
| "replace_vars cfg (c # cs) =
     (case match_var (c # cs) of
        Some (key, rest) \<Rightarrow>
          (case config_value cfg key of
             Some v \<Rightarrow> js_string v
           | None \<Rightarrow> ''{{'' @ key @ ''}}'') @ replace_vars cfg rest
      | None \<Rightarrow> c # replace_vars cfg cs)"
  by pat_completeness auto
termination
  by (relation "measure (\<lambda>(cfg, s). length s)") (auto dest: match_var_shorter)

text \<open>The first occurrence of a text: what stands before it and what follows it.\<close>

fun split_at :: "string \<Rightarrow> string \<Rightarrow> (string \<times> string) option" where
  "split_at needle [] = (if needle = [] then Some ([], []) else None)"
| "split_at needle (c # cs) =
     (if startsWith (c # cs) needle then Some ([], drop (length needle) (c # cs))
      else map_option (\<lambda>(pre, post). (c # pre, post)) (split_at needle cs))"

lemma split_at_shorter: "split_at needle s = Some (pre, post) \<Longrightarrow> length post \<le> length s"
proof (induction s arbitrary: pre)
  case Nil
  then show ?case by (simp split: if_splits)
next
  case (Cons c cs)
  show ?case
  proof (cases "startsWith (c # cs) needle")
    case True
    with Cons.prems show ?thesis by auto
  next
    case False
    with Cons.prems obtain b where "split_at needle cs = Some (b, post)" by auto
    from Cons.IH[OF this] show ?thesis by simp
  qed
qed

text \<open>
  \<^verbatim>\<open>/\{\{#([^}]+)\}\}([\s\S]*?)\{\{\/\1\}\}/g\<close> at the head of a string: the opening marker with
  its key (as above), the shortest content up to the first closing marker of the same key.
  The result is the key, the content and the text after the block.
\<close>

definition match_block :: "string \<Rightarrow> (string \<times> string \<times> string) option" where
  "match_block s =
     (if startsWith s ''{{#'' then
        let t = drop 3 s; key = takeWhile not_close t; r = dropWhile not_close t in
        if key \<noteq> [] \<and> startsWith r ''}}'' then
          (case split_at (''{{/'' @ key @ ''}}'') (drop 2 r) of
             Some (body, rest) \<Rightarrow> Some (key, body, rest)
           | None \<Rightarrow> None)
        else None
      else None)"

lemma match_block_shorter:
  assumes "match_block s = Some (key, body, rest)"
  shows "length rest < length s"
proof -
  from assms have st: "startsWith s ''{{#''"
    by (auto simp: match_block_def split: if_splits)
  from assms obtain r where r: "r = dropWhile not_close (drop 3 s)"
      and sp: "split_at (''{{/'' @ key @ ''}}'') (drop 2 r) = Some (body, rest)"
    by (auto simp: match_block_def Let_def split: if_splits option.splits)
  have "length rest \<le> length (drop 2 r)" using split_at_shorter[OF sp] .
  moreover have "length r \<le> length (drop 3 s)" unfolding r by (rule length_dropWhile_le)
  moreover have "3 \<le> length s" using st
    by (cases s; cases "tl s"; cases "tl (tl s)") auto
  ultimately show ?thesis by simp
qed

function replace_blocks :: "(string \<Rightarrow> string \<Rightarrow> string) \<Rightarrow> string \<Rightarrow> string" where
  "replace_blocks f [] = []"
| "replace_blocks f (c # cs) =
     (case match_block (c # cs) of
        Some (key, body, rest) \<Rightarrow> f key body @ replace_blocks f rest
      | None \<Rightarrow> c # replace_blocks f cs)"
  by pat_completeness auto
termination
  by (relation "measure (\<lambda>(f, s). length s)") (auto dest: match_block_shorter)

text \<open>The replacer of the second pass: \<open>condition ? content : ''\<close>.\<close>

definition conditional_block :: "config \<Rightarrow> string \<Rightarrow> string \<Rightarrow> string" where
  "conditional_block cfg key body =
     (case config_value cfg key of
        Some v \<Rightarrow> (if truthy v then body else [])
      | None \<Rightarrow> [])"

text \<open>
  The replacement string of \<open>itemContent.replace(new RegExp(...,'g'), String(item[itemKey]))\<close>
  is a pattern: \<^verbatim>\<open>$$\<close> is a dollar sign, \<^verbatim>\<open>$&\<close> the matched text, \<^verbatim>\<open>$`\<close> and \<^verbatim>\<open>$'\<close> the text
  before and after the match. The expression has no capture group, so \<^verbatim>\<open>$1\<close> stays as it is.
\<close>

fun expand_dollar :: "string \<Rightarrow> string \<Rightarrow> string \<Rightarrow> string \<Rightarrow> string" where
  "expand_dollar matched pre post [] = []"
| "expand_dollar matched pre post [c] = [c]"
| "expand_dollar matched pre post (c # d # r) =
     (if c = CHR ''$'' \<and> d = CHR ''$'' then CHR ''$'' # expand_dollar matched pre post r
      else if c = CHR ''$'' \<and> d = CHR ''&'' then matched @ expand_dollar matched pre post r
      else if c = CHR ''$'' \<and> d = CHR 0x60 then pre @ expand_dollar matched pre post r
      else if c = CHR ''$'' \<and> d = CHR 0x27 then post @ expand_dollar matched pre post r
      else c # expand_dollar matched pre post (d # r))"

text \<open>
  The expression built from an item key is \<^verbatim>\<open>\{\{key\}\}\<close>; for a key without regular
  expression metacharacters (an identifier, as all keys of the configuration types are) it
  matches exactly the token \<^verbatim>\<open>{{key}}\<close>. \<open>replace_token\<close> replaces every occurrence; \<open>pre\<close> is
  the text of the subject that stands before the position.
\<close>

function replace_token :: "string \<Rightarrow> string \<Rightarrow> string \<Rightarrow> string \<Rightarrow> string" where
  "replace_token itemKey repl pre [] = []"
| "replace_token itemKey repl pre (c # cs) =
     (let token = ''{{'' @ itemKey @ ''}}'' in
      if startsWith (c # cs) token then
        expand_dollar token pre (drop (length token) (c # cs)) repl
          @ replace_token itemKey repl (pre @ token) (drop (length token) (c # cs))
      else c # replace_token itemKey repl (pre @ [c]) cs)"
  by pat_completeness auto
termination
  by (relation "measure (\<lambda>(k, r, b, s). length s)") auto

text \<open>Decimal numerals, for the keys \<open>0\<close>, \<open>1\<close>, ... of an array.\<close>

definition digit_char :: "nat \<Rightarrow> char" where
  "digit_char d = ''0123456789'' ! d"

function decimal :: "nat \<Rightarrow> string" where
  "decimal n = (if n < 10 then [digit_char n] else decimal (n div 10) @ [digit_char (n mod 10)])"
  by pat_completeness auto
termination
  by (relation "measure id") auto

definition item_fields :: "jsval \<Rightarrow> (string \<times> jsval) list option" where
  "item_fields item =
     (case item of
        JObj fs \<Rightarrow> Some fs
      | JArr xs \<Rightarrow> Some (zip (map decimal [0..<length xs]) xs)
      | _ \<Rightarrow> None)"

definition render_item :: "string \<Rightarrow> jsval \<Rightarrow> string" where
  "render_item body item =
     (case item_fields item of
        Some fs \<Rightarrow>
          fold (\<lambda>(itemKey, v) itemContent. replace_token itemKey (js_string v) [] itemContent)
               fs body
      | None \<Rightarrow> body)"

text \<open>The replacer of the third pass.\<close>

definition loop_block :: "config \<Rightarrow> string \<Rightarrow> string \<Rightarrow> string" where
  "loop_block cfg key body =
     (case config_value cfg key of
        Some (JArr items) \<Rightarrow> concat (map (render_item body) items)
      | _ \<Rightarrow> [])"

definition replaceTemplateVariables :: "string \<Rightarrow> config \<Rightarrow> string" where
  "replaceTemplateVariables template cfg =
     (let result1 = replace_vars cfg template;
          result2 = replace_blocks (conditional_block cfg) result1;
          result3 = replace_blocks (loop_block cfg) result2
      in result3)"


subsection \<open>Templates and the generators\<close>

datatype ProjectType = REACT_WEB | FLUTTER_MOBILE

datatype gen_error = TemplateNotFound string | UnsupportedProjectType

text \<open>
  The template directory is a parameter: a partial map from template names to their text.
  \<open>loadTemplate\<close> throws \<open>Template not found: name\<close> when reading fails.
\<close>

type_synonym templates = "string \<rightharpoonup> string"

definition loadTemplate :: "templates \<Rightarrow> string \<Rightarrow> gen_error + string" where
  "loadTemplate fs templateName =
     (case fs templateName of
        Some t \<Rightarrow> Inr t
      | None \<Rightarrow> Inl (TemplateNotFound templateName))"

text \<open>\<open>{ ...defaults, ...config }\<close>: the entries of \<open>config\<close> win.\<close>

definition render :: "templates \<Rightarrow> string \<Rightarrow> (string \<times> jsval) list \<Rightarrow> config \<Rightarrow> gen_error + string" where
  "render fs templateName defaults cfg =
     (case loadTemplate fs templateName of
        Inl e \<Rightarrow> Inl e
      | Inr template \<Rightarrow> Inr (replaceTemplateVariables template (map_of defaults ++ cfg)))"

definition generateMainDart :: "templates \<Rightarrow> config \<Rightarrow> gen_error + string" where
  "generateMainDart fs cfg =
     render fs ''main.dart.template''
       [(''app_name'', JStr ''MyApp''), (''app_title'', JStr ''Flutter App''),
        (''primary_color'', JStr ''Colors.blue''), (''home_widget'', JStr ''HomePage'')]
       cfg"

definition generatePubspecYaml :: "templates \<Rightarrow> config \<Rightarrow> gen_error + string" where
  "generatePubspecYaml fs cfg =
     render fs ''pubspec.yaml.template''
       [(''project_name'', JStr ''flutter_app''),
        (''project_description'', JStr ''A new Flutter project.''),
        (''dependencies'', JArr []), (''dev_dependencies'', JArr []),
        (''has_assets'', JBool False), (''assets'', JArr []),
        (''has_fonts'', JBool False), (''fonts'', JArr [])]
       cfg"

definition generateStatefulWidget :: "templates \<Rightarrow> config \<Rightarrow> gen_error + string" where
  "generateStatefulWidget fs cfg =
     render fs ''stateful-widget.template''
       [(''constructor_params'', JArr []), (''state_variables'', JArr []),
        (''lifecycle_methods'', JArr []), (''custom_methods'', JArr []),
        (''widget_body'', JStr ''Container()'')]
       cfg"

definition generateStatelessWidget :: "templates \<Rightarrow> config \<Rightarrow> gen_error + string" where
  "generateStatelessWidget fs cfg =
     render fs ''stateless-widget.template''
       [(''constructor_params'', JArr []), (''custom_methods'', JArr []),
        (''widget_body'', JStr ''Container()'')]
       cfg"

definition generateScreen :: "templates \<Rightarrow> config \<Rightarrow> gen_error + string" where
  \<open>generateScreen fs cfg =
     render fs ''screen.template''
       ((case cfg ''screen_name'' of Some v \<Rightarrow> [(''screen_title'', v)] | None \<Rightarrow> [])
        @ [(''has_app_bar'', JBool True), (''has_drawer'', JBool False),
           (''has_floating_action_button'', JBool False),
           (''has_bottom_navigation'', JBool False), (''has_actions'', JBool False),
           (''body_content'', JStr ''Center(child: Text("Hello World"))''),
           (''actions'', JArr []), (''drawer_items'', JArr []), (''bottom_nav_items'', JArr []),
           (''current_index'', JStr ''0''), (''on_tap_handler'', JStr ''(index) {}''),
           (''fab_action'', JStr ''() {}''), (''fab_tooltip'', JStr ''Action''),
           (''fab_icon'', JStr ''Icons.add'')])
       cfg\<close>

subsection \<open>Name casing\<close>

text \<open>
  \<open>toPascalCase\<close>: \<^verbatim>\<open>/[^a-zA-Z0-9]/g\<close> to a space, \<^verbatim>\<open>/\b\w/g\<close> to upper case, \<^verbatim>\<open>/\s/g\<close> removed.
\<close>

definition toPascalCase :: "string \<Rightarrow> string" where
  "toPascalCase str =
     (let s1 = replace_all False (Sym (Exc [IRange CHR ''a'' CHR ''z'', IRange CHR ''A'' CHR ''Z'',
                                              IRange CHR ''0'' CHR ''9''])) (\<lambda>m cs. '' '') str;
          s2 = replace_all False (Seq Wb wordc) (\<lambda>m cs. toUpperCase m) s1
      in replace_all False (Sym (Inc [ISpace])) (\<lambda>m cs. []) s2)"

text \<open>
  \<open>toSnakeCase\<close>: \<^verbatim>\<open>/[A-Z]/g\<close> to \<^verbatim>\<open>_\<close> and the lower-case letter, \<^verbatim>\<open>/^_/\<close> removed,
  \<^verbatim>\<open>/[^a-zA-Z0-9_]/g\<close> to \<^verbatim>\<open>_\<close>, \<^verbatim>\<open>/_+/g\<close> to \<^verbatim>\<open>_\<close>, \<^verbatim>\<open>/^_|_$/g\<close> removed.
\<close>

definition toSnakeCase :: "string \<Rightarrow> string" where
  "toSnakeCase str =
     (let s1 = replace_all False (Sym (Inc [IRange CHR ''A'' CHR ''Z''])) (\<lambda>m cs. ''_'' @ toLowerCase m) str;
          s2 = replace_first False (Seq Bol (lit ''_'')) (\<lambda>m cs. []) s1;
          s3 = replace_all False (Sym (Exc [IRange CHR ''a'' CHR ''z'', IRange CHR ''A'' CHR ''Z'',
                                              IRange CHR ''0'' CHR ''9'', IChr CHR ''_'']))
                 (\<lambda>m cs. ''_'') s2;
          s4 = replace_all False (plus (lit ''_'')) (\<lambda>m cs. ''_'') s3
      in replace_all False (Alt (Seq Bol (lit ''_'')) (Seq (lit ''_'') Eol)) (\<lambda>m cs. []) s4)"

subsection \<open>Names from the prompt\<close>

text \<open>The optional words \<^verbatim>\<open>(?:a\s+)?\<close> and \<^verbatim>\<open>(?:called\s+)?\<close>.\<close>

definition a_word :: rx where
  "a_word = opt (Seq (lit ''a'') ws1)"

definition called_word :: rx where
  "called_word = opt (Seq (lit ''called'') ws1)"

text \<open>The first expression of a list that matches, with its captures.\<close>

fun first_match :: "rx list \<Rightarrow> string \<Rightarrow> captures option" where
  "first_match [] prompt = None"
| "first_match (r # rs) prompt =
     (case rx_match True r prompt of
        Some cs \<Rightarrow> Some cs
      | None \<Rightarrow> first_match rs prompt)"

definition with_suffix :: "string \<Rightarrow> string \<Rightarrow> string" where
  "with_suffix baseName suffix = (if endsWith baseName suffix then baseName else baseName @ suffix)"

definition screenNamePatterns :: "rx list" where
  "screenNamePatterns =
     [seqs [lit ''create'', ws1, a_word, Grp 1 word1, ws1, lit ''screen''],
      seqs [lit ''build'', ws1, Grp 1 word1, ws1, lit ''screen''],
      seqs [lit ''make'', ws1, a_word, Grp 1 word1, ws1, lit ''screen''],
      seqs [Grp 1 word1, ws1, lit ''screen''],
      seqs [lit ''screen'', ws1, called_word, Grp 1 word1]]"

definition extractScreenName :: "string \<Rightarrow> string option" where
  "extractScreenName prompt =
     map_option (\<lambda>cs. with_suffix (toPascalCase (group cs 1)) ''Screen'')
       (first_match screenNamePatterns prompt)"

definition words_spaces :: rx where
  "words_spaces = plus (Sym (Inc [IWord, ISpace]))"

definition widgetNamePatterns :: "rx list" where
  "widgetNamePatterns =
     [seqs [lit ''create'', ws1, a_word, Grp 1 words_spaces, ws1, lit ''widget''],
      seqs [lit ''build'', ws1, Grp 1 words_spaces, ws1, lit ''widget''],
      seqs [lit ''make'', ws1, a_word, Grp 1 words_spaces, ws1, lit ''widget''],
      seqs [Grp 1 words_spaces, ws1, lit ''widget''],
      seqs [lit ''widget'', ws1, called_word, Grp 1 words_spaces],
      seqs [lit ''component'', ws1, called_word, Grp 1 words_spaces]]"

definition extractWidgetName :: "string \<Rightarrow> string option" where
  "extractWidgetName prompt =
     map_option (\<lambda>cs. with_suffix (toPascalCase (trim (group cs 1))) ''Widget'')
       (first_match widgetNamePatterns prompt)"

definition projectNamePatterns :: "rx list" where
  "projectNamePatterns =
     [seqs [lit ''create'', ws1, a_word, Grp 1 word1, ws1, lits [''app'', ''project'']],
      seqs [lit ''build'', ws1, Grp 1 word1, ws1, lit ''app''],
      seqs [lit ''make'', ws1, a_word, Grp 1 word1, ws1, lits [''app'', ''project'']],
      seqs [lits [''app'', ''project''], ws1, called_word, Grp 1 word1]]"

definition extractProjectName :: "string \<Rightarrow> string option" where
  "extractProjectName prompt =
     map_option (\<lambda>cs.
         if includes_str (toLowerCase prompt) ''project''
         then with_suffix (toPascalCase (group cs 1)) ''Project''
         else with_suffix (toPascalCase (group cs 1)) ''App'')
       (first_match projectNamePatterns prompt)"

subsection \<open>generateFlutterProject and generateFlutterCodeFromPrompt\<close>

definition nl :: string where
  "nl = [CHR 0x0A]"

text \<open>\<open>a || b\<close> on an optional string and a string.\<close>

definition or_else :: "string option \<Rightarrow> string \<Rightarrow> string" where
  "or_else a b = (case a of Some (c # cs) \<Rightarrow> c # cs | _ \<Rightarrow> b)"

record ProjectConfig =
  projectName :: string
  projectDescription :: "string option"
  appTitle :: "string option"
  primaryColor :: "string option"

definition welcome_body :: "string \<Rightarrow> string" where
  "welcome_body title =
     ''Center('' @ nl @
     ''        child: Column('' @ nl @
     ''          mainAxisAlignment: MainAxisAlignment.center,'' @ nl @
     ''          children: ['' @ nl @
     ''            Text('' @ nl @
     ''              '' @ apos @ ''Welcome to '' @ title @ ''!'' @ apos @ '','' @ nl @
     ''              style: TextStyle(fontSize: 24, fontWeight: FontWeight.bold),'' @ nl @
     ''            ),'' @ nl @
     ''            SizedBox(height: 16),'' @ nl @
     ''            Text('' @ nl @
     ''              '' @ apos @ ''Start building your amazing app'' @ apos @ '','' @ nl @
     ''              style: TextStyle(fontSize: 16),'' @ nl @
     ''            ),'' @ nl @
     ''          ],'' @ nl @
     ''        ),'' @ nl @
     ''      )''"

definition generateFlutterProject ::
  "templates \<Rightarrow> ProjectConfig \<Rightarrow> gen_error + (string \<times> string) list" where
  "generateFlutterProject fs pc =
     (let appName = toPascalCase (projectName pc);
          homeWidget = appName @ ''HomePage'';
          title = or_else (appTitle pc) (projectName pc)
      in case generateMainDart fs
                (map_of [(''app_name'', JStr appName), (''app_title'', JStr title),
                         (''primary_color'', JStr (or_else (primaryColor pc) ''Colors.blue'')),
                         (''home_widget'', JStr homeWidget)]) of
           Inl e \<Rightarrow> Inl e
         | Inr mainDart \<Rightarrow>
        (case generatePubspecYaml fs
                (map_of [(''project_name'', JStr (toSnakeCase (projectName pc))),
                         (''project_description'',
                            JStr (or_else (projectDescription pc)
                                    ''A new Flutter project generated by Open Lovable.''))]) of
           Inl e \<Rightarrow> Inl e
         | Inr pubspecYaml \<Rightarrow>
        (case generateScreen fs
                (map_of [(''screen_name'', JStr homeWidget), (''screen_title'', JStr title),
                         (''body_content'', JStr (welcome_body title))]) of
           Inl e \<Rightarrow> Inl e
         | Inr homePage \<Rightarrow>
             Inr [(''lib/main.dart'', mainDart), (''pubspec.yaml'', pubspecYaml),
                  (''lib/pages/'' @ toSnakeCase homeWidget @ ''.dart'', homePage)])))"

definition generateScreenFromPrompt :: "templates \<Rightarrow> string \<Rightarrow> gen_error + string" where
  "generateScreenFromPrompt fs prompt =
     (let screenName = (case extractScreenName prompt of Some (c # cs) \<Rightarrow> c # cs
                        | _ \<Rightarrow> ''GeneratedScreen'');
          lower = toLowerCase prompt;
          hasAppBar = (includes_str lower ''appbar'' \<or> includes_str lower ''app bar'');
          hasFloatingActionButton =
            (includes_str lower ''floating action'' \<or> includes_str lower ''fab'');
          hasBottomNavigation =
            (includes_str lower ''bottom navigation'' \<or> includes_str lower ''tab'')
      in generateScreen fs
           (map_of [(''screen_name'', JStr screenName), (''has_app_bar'', JBool hasAppBar),
                    (''has_floating_action_button'', JBool hasFloatingActionButton),
                    (''has_bottom_navigation'', JBool hasBottomNavigation),
                    (''body_content'',
                       JStr (''Center('' @ nl @ ''        child: Text('' @ apos @ screenName
                             @ '' Screen'' @ apos @ ''),'' @ nl @ ''      )''))]))"

definition generateWidgetFromPrompt :: "templates \<Rightarrow> string \<Rightarrow> gen_error + string" where
  "generateWidgetFromPrompt fs prompt =
     (let widgetName = (case extractWidgetName prompt of Some (c # cs) \<Rightarrow> c # cs
                        | _ \<Rightarrow> ''GeneratedWidget'');
          lower = toLowerCase prompt;
          isStateful = (includes_str lower ''stateful'' \<or> includes_str lower ''state''
                        \<or> includes_str lower ''interactive'');
          cfg = map_of [(''widget_name'', JStr widgetName),
                        (''widget_body'',
                           JStr (''Container('' @ nl @ ''          child: Text('' @ apos
                                 @ widgetName @ apos @ ''),'' @ nl @ ''        )''))]
      in if isStateful then generateStatefulWidget fs cfg else generateStatelessWidget fs cfg)"

text \<open>\<open>files['lib/main.dart']\<close> of the generated project.\<close>

definition generateProjectFromPrompt :: "templates \<Rightarrow> string \<Rightarrow> gen_error + string" where
  "generateProjectFromPrompt fs prompt =
     (let name = (case extractProjectName prompt of Some (c # cs) \<Rightarrow> c # cs
                  | _ \<Rightarrow> ''GeneratedApp'')
      in case generateFlutterProject fs
                \<lparr>projectName = name, projectDescription = None, appTitle = Some name,
                 primaryColor = None\<rparr> of
           Inl e \<Rightarrow> Inl e
         | Inr generated \<Rightarrow>
             Inr (case map_of generated ''lib/main.dart'' of Some t \<Rightarrow> t | None \<Rightarrow> []))"

definition generateFlutterCodeFromPrompt ::
  "templates \<Rightarrow> string \<Rightarrow> ProjectType \<Rightarrow> gen_error + string" where
  "generateFlutterCodeFromPrompt fs prompt projectType =
     (if projectType \<noteq> FLUTTER_MOBILE then Inl UnsupportedProjectType
      else
        let lowerPrompt = toLowerCase prompt in
        if includes_str lowerPrompt ''screen'' \<or> includes_str lowerPrompt ''page''
        then generateScreenFromPrompt fs prompt
        else if includes_str lowerPrompt ''widget'' \<or> includes_str lowerPrompt ''component''
        then generateWidgetFromPrompt fs prompt
        else if includes_str lowerPrompt ''project'' \<or> includes_str lowerPrompt ''app''
        then generateProjectFromPrompt fs prompt
        else generateStatelessWidget fs
               (map_of [(''widget_name'', JStr ''GeneratedWidget''),
                        (''widget_body'',
                           JStr (''Container('' @ nl @ ''        child: Text('' @ apos
                                 @ ''Generated from: '' @ prompt @ apos @ ''),'' @ nl
                                 @ ''      )''))]))"

section \<open>Pubspec data and the package operations (flutter-package-manager.ts)\<close>

text \<open>
  A \<open>PubspecData\<close> object holds references to two \<open>Record<string, string>\<close> objects,
  \<open>dependencies\<close> and \<open>dev_dependencies\<close>. The operations below mutate those objects in
  place and return a shallow copy \<open>{ ...pubspecData }\<close> of the outer object, so the model keeps
  an explicit store from object identities to the contents of the dependency maps. The other
  fields are not written by these operations and are kept as plain values.
\<close>

type_synonym addr = nat

text \<open>
  The value stored for a package is the version string, or the member of \<open>Object.prototype\<close>
  that the read \<open>COMMON_PACKAGES[packageName]\<close> found under the package name.
\<close>

datatype depvalue = Version string | Inherited string

type_synonym depmap = "string \<rightharpoonup> depvalue"

type_synonym store = "addr \<Rightarrow> depmap"

record FlutterSection =
  uses_material_design :: "bool option"
  assets :: "string list option"

record PubspecData =
  ps_name :: string
  ps_description :: "string option"
  ps_version :: string
  ps_environment_sdk :: string
  dependencies :: addr
  dev_dependencies :: addr
  ps_flutter :: "FlutterSection option"

definition COMMON_PACKAGES :: "(string \<times> string) list" where
  "COMMON_PACKAGES =
    [(''http'', ''^1.2.0''), (''provider'', ''^6.1.1''), (''riverpod'', ''^2.4.9''),
     (''flutter_riverpod'', ''^2.4.9''), (''shared_preferences'', ''^2.2.2''),
     (''path_provider'', ''^2.1.1''), (''sqflite'', ''^2.3.0''), (''image_picker'', ''^1.0.4''),
     (''camera'', ''^0.10.5+5''), (''geolocator'', ''^10.1.0''),
     (''connectivity_plus'', ''^5.0.2''), (''url_launcher'', ''^6.2.1''),
     (''webview_flutter'', ''^4.4.2''), (''firebase_core'', ''^2.24.2''),
     (''firebase_auth'', ''^4.15.3''), (''cloud_firestore'', ''^4.13.6''), (''dio'', ''^5.3.2''),
     (''json_annotation'', ''^4.8.1''), (''freezed_annotation'', ''^2.4.1''),
     (''google_fonts'', ''^6.1.0''), (''cached_network_image'', ''^3.3.0''),
     (''flutter_svg'', ''^2.0.9''), (''animations'', ''^2.0.11''),
     (''flutter_staggered_grid_view'', ''^0.7.0''), (''pull_to_refresh'', ''^2.0.0''),
     (''shimmer'', ''^3.0.0''), (''lottie'', ''^2.7.0'')]"

definition COMMON_DEV_PACKAGES :: "(string \<times> string) list" where
  "COMMON_DEV_PACKAGES =
    [(''flutter_test'', ''sdk: flutter''), (''flutter_lints'', ''^3.0.0''),
     (''build_runner'', ''^2.4.7''), (''json_serializable'', ''^6.7.1''),
     (''freezed'', ''^2.4.6''), (''mockito'', ''^5.4.2''),
     (''integration_test'', ''sdk: flutter'')]"

text \<open>
  JavaScript's \<open>a || b\<close>: the left operand when it is truthy (a non-empty string, a function
  or an object), the right operand otherwise (\<open>undefined\<close>, \<open>null\<close> and \<open>''\<close> are falsy).
\<close>

definition js_or :: "depvalue option \<Rightarrow> depvalue option \<Rightarrow> depvalue option" where
  "js_or a b =
     (case a of
        Some (Version (c # cs)) \<Rightarrow> a
      | Some (Inherited key) \<Rightarrow> a
      | _ \<Rightarrow> b)"

text \<open>\<open>table[packageName]\<close> on one of the two version tables, which are object literals.\<close>

definition table_lookup :: "(string \<times> string) list \<Rightarrow> string \<Rightarrow> depvalue option" where
  "table_lookup table packageName =
     js_get (map_option Version \<circ> map_of table) Inherited packageName"

definition packageVersion :: "string \<Rightarrow> string option \<Rightarrow> bool \<Rightarrow> depvalue" where
  "packageVersion packageName version isDev =
     (case js_or (js_or (js_or (map_option Version version)
                               (table_lookup COMMON_PACKAGES packageName))
                        (if isDev then table_lookup COMMON_DEV_PACKAGES packageName else None))
                 (Some (Version ''^1.0.0'')) of
        Some v \<Rightarrow> v
      | None \<Rightarrow> Version ''^1.0.0'')"

text \<open>
  \<open>addPackage\<close> writes \<open>targetDependencies[packageName] = packageVersion\<close> into the map object
  of the input and returns a shallow copy of the outer object.
\<close>

definition addPackage ::
  "store \<Rightarrow> PubspecData \<Rightarrow> string \<Rightarrow> string option \<Rightarrow> bool \<Rightarrow> store \<times> PubspecData" where
  "addPackage h pubspecData packageName version isDev =
     (let targetDependencies =
            (if isDev then dev_dependencies pubspecData else dependencies pubspecData);
          h1 = h(targetDependencies :=
                  js_set (h targetDependencies) packageName
                    (packageVersion packageName version isDev))
      in (h1, pubspecData))"

definition removePackage :: "store \<Rightarrow> PubspecData \<Rightarrow> string \<Rightarrow> store \<times> PubspecData" where
  "removePackage h pubspecData packageName =
     (let newData = pubspecData;
          h1 = h(dependencies newData := (h (dependencies newData))(packageName := None));
          h2 = h1(dev_dependencies newData :=
                   (h1 (dev_dependencies newData))(packageName := None))
      in (h2, newData))"

section \<open>Notions used to state the properties\<close>

text \<open>The six statement-starting expressions of \<open>shouldHaveSemicolon\<close>, in its order.\<close>

definition statementPatterns :: "rx list" where
  "statementPatterns = [rx_declaration, rx_assignment, rx_return, rx_throw, rx_assert, rx_super]"

text \<open>
  The condition under which a line gets a missing-semicolon error: the trimmed line is
  neither empty nor a comment, starts like a statement, does not end in a semicolon, holds
  no \<^verbatim>\<open>{\<close> and no \<^verbatim>\<open>=>\<close> anywhere, and does not end in \<^verbatim>\<open>(\<close>.
\<close>

definition flagged :: "string \<Rightarrow> bool" where
  "flagged line =
     (let t = trim line in
      t \<noteq> [] \<and> \<not> startsWith t ''//'' \<and> \<not> startsWith t ''/*''
      \<and> list_ex (\<lambda>r. rx_test False r t) statementPatterns
      \<and> \<not> endsWith t '';'' \<and> \<not> includes_str t ''{'' \<and> \<not> includes_str t ''=>''
      \<and> \<not> endsWith t ''('')"

text \<open>The line numbers that carry a missing-semicolon error.\<close>

definition ms_lines :: "DartValidationError list \<Rightarrow> nat set" where
  "ms_lines errs = err_line ` {e \<in> set errs. err_code e = Some ''missing_semicolon''}"





text \<open>A manifest of two files, for the concrete instances.\<close>

definition two_file_manifest :: FileManifest where
  "two_file_manifest =
     \<lparr>files = [(''lib/main.dart'',
                 \<lparr>content = ''void main() {}'', lastModified = 5, componentInfo = None,
                  flutterInfo = None\<rparr>),
                (''src/Header.jsx'',
                 \<lparr>content = ''<h1>Hello</h1>'', lastModified = 7, componentInfo = None,
                  flutterInfo = None\<rparr>)],
       entryPoint = ''src/App.jsx'', styleFiles = [''src/index.css''], timestamp = 0\<rparr>"

text \<open>
  A template cut into its pieces. A part is literal text or a simple token \<^verbatim>\<open>{{key}}\<close>; a
  segment is a part or a block \<^verbatim>\<open>{{#key}}\<close> ... \<^verbatim>\<open>{{/key}}\<close> around parts.
\<close>

datatype part = Lit string | Tok string





text \<open>
  What the grammar of the specification makes of a piece: literal text stays; a token becomes
  \<open>String(config[key])\<close>, or stays when the key is absent; a block whose value is not a list
  becomes its rendered content when the value is truthy and nothing when it is falsy or
  absent.
\<close>

fun part_rendered :: "config \<Rightarrow> part \<Rightarrow> string" where
  "part_rendered cfg (Lit t) = t"
| "part_rendered cfg (Tok k) =
     (case config_value cfg k of Some v \<Rightarrow> js_string v | None \<Rightarrow> ''{{'' @ k @ ''}}'')"


















section \<open>Properties of the package operations\<close>

lemma removePackage_store:
  "fst (removePackage h p n) =
     (\<lambda>a. if a = dependencies p \<or> a = dev_dependencies p then (h a)(n := None) else h a)"
  by (auto simp: removePackage_def Let_def fun_eq_iff)

lemma removePackage_record: "snd (removePackage h p n) = p"
  by (simp add: removePackage_def Let_def)

lemma addPackage_store:
  "fst (addPackage h p n v d) =
     h((if d then dev_dependencies p else dependencies p) :=
         js_set (h (if d then dev_dependencies p else dependencies p)) n (packageVersion n v d))"
  by (simp add: addPackage_def Let_def)

lemma addPackage_record: "snd (addPackage h p n v d) = p"
  by (simp add: addPackage_def Let_def)

lemma js_set_at:
  "js_set m n x n = (if n = ''__proto__'' \<and> m n = None then None else Some x)"
  by (auto simp: js_set_def)

lemma js_get_removed:
  "js_get (m(n := None)) f n = (if n \<in> set object_prototype_members then Some (f n) else None)"
  by (simp add: js_get_def)

lemma packageVersion_examples:
  "packageVersion ''http'' None False = Version ''^1.2.0''
   \<and> packageVersion ''constructor'' None False = Inherited ''constructor''"
  by code_simp

text \<open>
  Claim C10. \<open>removePackage(p, n)\<close> deletes \<open>n\<close> from both dependency maps and leaves
  the name, description, version, environment and flutter fields as they were. The returned
  object refers to the very same two map objects as the input, so after the call the input
  object itself no longer has the property \<open>n\<close> in either map (a read of \<open>n\<close> then gives
  \<open>undefined\<close>, or what \<open>Object.prototype\<close> has under that name), every other key of those maps
  and every other object of the store is as before. Likewise the write of \<open>addPackage\<close> goes
  to the map object of the input and is seen through it: the property \<open>n\<close> then holds the
  version that \<open>addPackage\<close> chose, except that a write under \<^verbatim>\<open>__proto__\<close> to a map without
  such a property adds none. The version chosen for \<open>http\<close> is the one of the table; for
  \<open>constructor\<close> the read of the table finds the member of \<open>Object.prototype\<close>.
\<close>

theorem removePackage_frame_and_sharing:
  "(let (h', p') = removePackage h p n; (g', q') = addPackage h p n v d;
        target = (if d then dev_dependencies p else dependencies p) in
       h' (dependencies p') n = None \<and> h' (dev_dependencies p') n = None
     \<and> ps_name p' = ps_name p \<and> ps_description p' = ps_description p
     \<and> ps_version p' = ps_version p \<and> ps_environment_sdk p' = ps_environment_sdk p
     \<and> ps_flutter p' = ps_flutter p
     \<and> dependencies p' = dependencies p \<and> dev_dependencies p' = dev_dependencies p
     \<and> h' (dependencies p) n = None \<and> h' (dev_dependencies p) n = None
     \<and> h' (dependencies p) = (h (dependencies p))(n := None)
     \<and> h' (dev_dependencies p) = (h (dev_dependencies p))(n := None)
     \<and> js_get (h' (dependencies p)) Inherited n
         = (if n \<in> set object_prototype_members then Some (Inherited n) else None)
     \<and> js_get (h' (dev_dependencies p)) Inherited n
         = (if n \<in> set object_prototype_members then Some (Inherited n) else None)
     \<and> (\<forall>a. a = dependencies p \<or> a = dev_dependencies p \<or> h' a = h a)
     \<and> dependencies q' = dependencies p \<and> dev_dependencies q' = dev_dependencies p
     \<and> g' target = js_set (h target) n (packageVersion n v d)
     \<and> g' target n
         = (if n = ''__proto__'' \<and> h target n = None then None
            else Some (packageVersion n v d))
     \<and> (\<forall>a. a = target \<or> g' a = h a))
   \<and> packageVersion ''http'' None False = Version ''^1.2.0''
   \<and> packageVersion ''constructor'' None False = Inherited ''constructor''"
  using packageVersion_examples
  by (simp add: split_beta removePackage_store removePackage_record
        addPackage_store addPackage_record js_set_at js_get_removed Let_def)

section \<open>Properties of the matcher\<close>






















section \<open>Properties of the classifier\<close>

lemma matched_group_Some:
  assumes "list_ex (group_matches (toLowerCase prompt)) intentPatterns"
  obtains p where "matched_group prompt = Some p" "group_matches (toLowerCase prompt) p"
proof -
  from assms have "find (group_matches (toLowerCase prompt)) intentPatterns \<noteq> None"
    by (auto simp: find_None_iff list_ex_iff)
  then obtain p where p: "find (group_matches (toLowerCase prompt)) intentPatterns = Some p"
    by blast
  then have "group_matches (toLowerCase prompt) p"
    by (auto simp: find_Some_iff)
  with p show ?thesis using that by (simp add: matched_group_def)
qed


lemma set_getSuggestedContext:
  "set (getSuggestedContext targets manifest) = set (keys manifest) - set targets"
  by (auto simp: getSuggestedContext_def Let_def)

lemma double_literals: "js_number (3 / 10) = 5404319552844595 / 18014398509481984"
  by code_simp

text \<open>
  Claim C4. When no expression of any pattern group matches the lower-cased prompt,
  \<open>analyzeEditIntent\<close> returns the default intent: type \<open>UPDATE_COMPONENT\<close>, the entry point
  as the only target, confidence 0.3 (the number that the literal \<open>0.3\<close> denotes), no
  suggested context (and the fixed description). Stated for prompts of ASCII characters.
\<close>

theorem analyzeEditIntent_default:
  assumes "isAscii prompt"
    and "list_all (\<lambda>p. list_all (\<lambda>r. \<not> rx_test True r (toLowerCase prompt)) (patterns p))
             intentPatterns"
  shows "analyzeEditIntent prompt manifest =
           \<lparr>intent_type = UPDATE_COMPONENT, targetFiles = [entryPoint manifest],
            confidence = js_number (3 / 10), description = ''General update to application'',
            suggestedContext = []\<rparr>"
proof -
  from assms(2) have "\<not> (\<exists>p \<in> set intentPatterns. group_matches (toLowerCase prompt) p)"
    by (auto simp: list_all_iff group_matches_def list_ex_iff)
  then have "matched_group prompt = None"
    by (simp add: matched_group_def find_None_iff)
  then show ?thesis by (simp add: analyzeEditIntent_def)
qed

theorem analyzeEditIntent_default_witness:
  "isAscii ''Hello''
   \<and> list_all (\<lambda>p. list_all (\<lambda>r. \<not> rx_test True r (toLowerCase ''Hello'')) (patterns p))
     intentPatterns
   \<and> analyzeEditIntent ''Hello'' two_file_manifest =
           \<lparr>intent_type = UPDATE_COMPONENT, targetFiles = [''src/App.jsx''],
            confidence = 5404319552844595 / 18014398509481984,
            description = ''General update to application'', suggestedContext = []\<rparr>"
proof -
  have a: "isAscii ''Hello''"
    by code_simp
  have h: "list_all (\<lambda>p. list_all (\<lambda>r. \<not> rx_test True r (toLowerCase ''Hello'')) (patterns p))
     intentPatterns"
    by code_simp
  show ?thesis
    using a h analyzeEditIntent_default[OF a h, of two_file_manifest]
    by (simp add: two_file_manifest_def double_literals)
qed

lemma matched_if_not_default:
  assumes "confidence (analyzeEditIntent prompt manifest) \<noteq> js_number (3 / 10)"
  shows "list_ex (group_matches (toLowerCase prompt)) intentPatterns"
proof (rule ccontr)
  assume "\<not> list_ex (group_matches (toLowerCase prompt)) intentPatterns"
  then have "matched_group prompt = None"
    by (auto simp: matched_group_def find_None_iff list_ex_iff)
  then have "confidence (analyzeEditIntent prompt manifest) = js_number (3 / 10)"
    by (simp add: analyzeEditIntent_def)
  with assms show False by simp
qed

text \<open>
  Claim C3, as the code has it. When a pattern group matched, the suggested context holds no
  target path, and context and targets together are the keys of \<open>manifest.files\<close> plus the
  targets themselves: a resolver may return a path that is no key of the manifest (the entry
  point, or the literal \<^verbatim>\<open>pubspec.yaml\<close> that stands for a file still to be created), so the
  union is the key set exactly when every target is a key.
\<close>

theorem suggestedContext_partition:
  assumes "list_ex (group_matches (toLowerCase prompt)) intentPatterns"
  shows "(let r = analyzeEditIntent prompt manifest in
            set (suggestedContext r) \<inter> set (targetFiles r) = {}
          \<and> set (suggestedContext r) \<union> set (targetFiles r)
              = set (keys manifest) \<union> set (targetFiles r)
          \<and> (set (suggestedContext r) \<union> set (targetFiles r) = set (keys manifest)
               \<longleftrightarrow> set (targetFiles r) \<subseteq> set (keys manifest)))"
proof -
  from assms obtain p where p: "matched_group prompt = Some p"
    by (rule matched_group_Some)
  show ?thesis
    by (auto simp: analyzeEditIntent_def p Let_def set_getSuggestedContext)
qed





subsection \<open>Concrete classifications\<close>

lemma pub_add_intent:
  "analyzeEditIntent ''flutter pub add http'' two_file_manifest =
     \<lparr>intent_type = ADD_FLUTTER_PACKAGE, targetFiles = [''pubspec.yaml''],
      confidence = 2026619832316723 / 2251799813685248,
      description = ''Adding Flutter package to: pubspec.yaml'',
      suggestedContext = [''lib/main.dart'', ''src/Header.jsx'']\<rparr>"
  by code_simp

lemma header_intent:
  "analyzeEditIntent ''Change the header'' two_file_manifest =
     \<lparr>intent_type = UPDATE_COMPONENT, targetFiles = [''src/Header.jsx''],
      confidence = 2026619832316723 / 2251799813685248,
      description = ''Updating component(s): Header.jsx'',
      suggestedContext = [''lib/main.dart'']\<rparr>"
  by code_simp


lemma keys_two_file_manifest: "keys two_file_manifest = [''lib/main.dart'', ''src/Header.jsx'']"
  by (simp add: keys_def two_file_manifest_def)

text \<open>
  The prompt \<^verbatim>\<open>flutter pub add http\<close> on a manifest without a pubspec file: the target is the
  literal \<^verbatim>\<open>pubspec.yaml\<close>, which is no key of the manifest, so the union of context and
  targets is not the key set.
\<close>

theorem suggestedContext_union_counterexample:
  "list_ex (group_matches (toLowerCase ''flutter pub add http'')) intentPatterns
   \<and> targetFiles (analyzeEditIntent ''flutter pub add http'' two_file_manifest)
       = [''pubspec.yaml'']
   \<and> set (suggestedContext (analyzeEditIntent ''flutter pub add http'' two_file_manifest))
       \<union> set (targetFiles (analyzeEditIntent ''flutter pub add http'' two_file_manifest))
     \<noteq> set (keys two_file_manifest)"
proof -
  have "confidence (analyzeEditIntent ''flutter pub add http'' two_file_manifest)
          \<noteq> js_number (3 / 10)"
    by (simp add: pub_add_intent double_literals)
  then have 1: "list_ex (group_matches (toLowerCase ''flutter pub add http'')) intentPatterns"
    by (rule matched_if_not_default)
  have "''pubspec.yaml'' \<notin> set (keys two_file_manifest)"
    by (simp add: keys_two_file_manifest)
  moreover have "''pubspec.yaml''
      \<in> set (suggestedContext (analyzeEditIntent ''flutter pub add http'' two_file_manifest))
       \<union> set (targetFiles (analyzeEditIntent ''flutter pub add http'' two_file_manifest))"
    by (simp add: pub_add_intent)
  ultimately have "set (suggestedContext (analyzeEditIntent ''flutter pub add http'' two_file_manifest))
       \<union> set (targetFiles (analyzeEditIntent ''flutter pub add http'' two_file_manifest))
     \<noteq> set (keys two_file_manifest)"
    by metis
  with 1 show ?thesis by (simp add: pub_add_intent)
qed

theorem suggestedContext_partition_witness:
  "list_ex (group_matches (toLowerCase ''Change the header'')) intentPatterns
   \<and> targetFiles (analyzeEditIntent ''Change the header'' two_file_manifest)
       = [''src/Header.jsx'']
   \<and> set (suggestedContext (analyzeEditIntent ''Change the header'' two_file_manifest))
       \<inter> set (targetFiles (analyzeEditIntent ''Change the header'' two_file_manifest)) = {}
   \<and> set (suggestedContext (analyzeEditIntent ''Change the header'' two_file_manifest))
       \<union> set (targetFiles (analyzeEditIntent ''Change the header'' two_file_manifest))
      = set (keys two_file_manifest)"
proof -
  have "confidence (analyzeEditIntent ''Change the header'' two_file_manifest)
          \<noteq> js_number (3 / 10)"
    by (simp add: header_intent double_literals)
  then have h: "list_ex (group_matches (toLowerCase ''Change the header'')) intentPatterns"
    by (rule matched_if_not_default)
  have t: "targetFiles (analyzeEditIntent ''Change the header'' two_file_manifest)
             = [''src/Header.jsx'']"
    by (simp add: header_intent)
  show ?thesis
    using h t suggestedContext_partition[OF h, of two_file_manifest]
    by (simp add: Let_def keys_two_file_manifest)
qed



section \<open>Properties of the validator\<close>

subsection \<open>Trimming\<close>

lemma dropWhile_rev_hd:
  assumes "xs \<noteq> []" "\<not> P (hd xs)"
  shows "\<exists>ys. rev (dropWhile P (rev xs)) = hd xs # ys"
proof -
  from assms obtain x ys where xs: "xs = x # ys" and nP: "\<not> P x" by (cases xs) auto
  have "dropWhile P (rev ys @ x # []) = dropWhile P (rev ys) @ x # []"
    using nP by (rule dropWhile_append3)
  hence "rev (dropWhile P (rev xs)) = x # rev (dropWhile P (rev ys))"
    by (simp add: xs)
  thus ?thesis by (simp add: xs)
qed

lemma trim_not_space_hd:
  assumes ne: "trim s \<noteq> []"
  shows "\<not> isSpace (hd (trim s))"
proof -
  define d where "d = dropWhile isSpace s"
  have t: "trim s = rev (dropWhile isSpace (rev d))" by (simp add: trim_def d_def)
  have dne: "d \<noteq> []" using ne unfolding t by auto
  hence nsp: "\<not> isSpace (hd d)" unfolding d_def by (rule hd_dropWhile)
  obtain ys where "trim s = hd d # ys"
    using dropWhile_rev_hd[of d isSpace] dne nsp unfolding t by blast
  thus ?thesis using nsp by simp
qed

lemma trim_not_space_last:
  assumes ne: "trim s \<noteq> []"
  shows "\<not> isSpace (last (trim s))"
proof -
  define r where "r = dropWhile isSpace (rev (dropWhile isSpace s))"
  have t: "trim s = rev r" by (simp add: trim_def r_def)
  have rne: "r \<noteq> []" using ne unfolding t by simp
  hence "\<not> isSpace (hd r)" unfolding r_def by (rule hd_dropWhile)
  thus ?thesis using rne unfolding t by (simp add: last_rev)
qed

lemma dropWhile_id: "xs = [] \<or> \<not> P (hd xs) \<Longrightarrow> dropWhile P xs = xs"
  by (cases xs) auto

lemma trim_idem: "trim (trim s) = trim s"
proof -
  define u where "u = trim s"
  have 1: "dropWhile isSpace u = u"
    using trim_not_space_hd[of s] unfolding u_def by (intro dropWhile_id) blast
  have "rev u = [] \<or> \<not> isSpace (hd (rev u))"
  proof (cases "u = []")
    case True
    then show ?thesis by simp
  next
    case False
    then have "\<not> isSpace (last u)" using trim_not_space_last[of s] unfolding u_def by blast
    then show ?thesis using False by (simp add: hd_rev)
  qed
  hence 2: "dropWhile isSpace (rev u) = rev u" by (rule dropWhile_id)
  have "trim u = u" by (simp add: trim_def[of u] 1 2)
  thus ?thesis by (simp add: u_def)
qed

subsection \<open>Where missing-semicolon errors come from\<close>

lemma ms_lines_append: "ms_lines (xs @ ys) = ms_lines xs \<union> ms_lines ys"
  by (auto simp: ms_lines_def)

lemma ms_lines_Nil: "ms_lines [] = {}"
  by (simp add: ms_lines_def)

lemma ms_lines_single:
  "ms_lines [e] = (if err_code e = Some ''missing_semicolon'' then {err_line e} else {})"
  by (auto simp: ms_lines_def)

lemma typo_error_shape:
  "typo_error line n typo = [] \<or>
   (\<exists>c m. typo_error line n typo =
      [\<lparr>err_line = n, err_column = c, err_message = m, err_severity = error,
        err_code = Some ''possible_typo''\<rparr>])"
  by (cases typo; cases "match_strings False (typo_rx (fst typo)) line")
     (simp_all add: typo_error_def)

lemma ms_lines_typo: "ms_lines (typo_error line n typo) = {}"
  using typo_error_shape[of line n typo] by (auto simp: ms_lines_single ms_lines_Nil)

lemma ms_lines_typos: "ms_lines (concat (map (typo_error line n) ts)) = {}"
  by (induction ts) (simp_all add: ms_lines_append ms_lines_Nil ms_lines_typo)

lemma ms_lines_checkCommonTypos: "ms_lines (checkCommonTypos line n errs) = ms_lines errs"
  by (simp add: checkCommonTypos_def ms_lines_append ms_lines_typos)

lemma shouldHaveSemicolon_trim:
  "shouldHaveSemicolon (trim line) =
     (list_ex (\<lambda>r. rx_test False r (trim line)) statementPatterns
      \<and> \<not> includes_str (trim line) ''{'' \<and> \<not> includes_str (trim line) ''=>''
      \<and> \<not> endsWith (trim line) ''('')"
  by (auto simp: shouldHaveSemicolon_def statementPatterns_def trim_idem Let_def)

lemma ms_lines_checkBasicSyntax:
  "ms_lines (checkBasicSyntax line n errs) = ms_lines errs \<union> (if flagged line then {n} else {})"
proof (cases "trim line = [] \<or> startsWith (trim line) ''//'' \<or> startsWith (trim line) ''/*''")
  case True
  then show ?thesis by (auto simp: checkBasicSyntax_def Let_def flagged_def)
next
  case False
  then have f: "flagged line = (shouldHaveSemicolon (trim line) \<and> \<not> endsWith (trim line) '';'')"
    unfolding flagged_def Let_def shouldHaveSemicolon_trim by blast
  show ?thesis
    using False unfolding f
    by (simp add: checkBasicSyntax_def Let_def ms_lines_checkCommonTypos ms_lines_append
        ms_lines_single)
qed

lemma ms_lines_validate_lines:
  "ms_lines (fst (validate_lines i ls errs warns)) =
     ms_lines errs \<union> {i + k + 1 | k. k < length ls \<and> flagged (ls ! k)}"
proof (induction ls arbitrary: i errs warns)
  case Nil
  then show ?case by simp
next
  case (Cons l ls)
  have "{i + k + 1 | k. k < length (l # ls) \<and> flagged ((l # ls) ! k)} =
        (if flagged l then {i + 1} else {}) \<union> {Suc i + k + 1 | k. k < length ls \<and> flagged (ls ! k)}"
    (is "?A = ?B")
  proof (rule set_eqI)
    fix x show "x \<in> ?A \<longleftrightarrow> x \<in> ?B"
    proof
      assume "x \<in> ?A"
      then obtain k where k: "x = i + k + 1" "k < length (l # ls)" "flagged ((l # ls) ! k)" by auto
      show "x \<in> ?B" using k by (cases k) auto
    next
      assume "x \<in> ?B"
      then consider "flagged l" "x = i + 1" | k where "x = Suc i + k + 1" "k < length ls" "flagged (ls ! k)"
        by (auto split: if_splits)
      then show "x \<in> ?A"
      proof cases
        case 1
        then show ?thesis by (auto intro: exI[of _ 0])
      next
        case 2
        then show ?thesis by (auto intro!: exI[of _ "Suc k"])
      qed
    qed
  qed
  then show ?case
    by (simp add: Let_def Cons.IH ms_lines_checkBasicSyntax Un_assoc)
qed

lemma ms_lines_checkOverallStructure:
  "ms_lines (checkOverallStructure src errs warns) = ms_lines errs"
  by (auto simp: checkOverallStructure_def Let_def ms_lines_def)

lemma ms_lines_validateDartCode:
  "ms_lines (errors (validateDartCode src)) =
     {k + 1 | k. k < length (split_on (CHR 0x0A) src) \<and> flagged (split_on (CHR 0x0A) src ! k)}"
proof -
  obtain errs warns where vl: "validate_lines 0 (split_on (CHR 0x0A) src) [] [] = (errs, warns)"
    by (cases "validate_lines 0 (split_on (CHR 0x0A) src) [] []")
  have "ms_lines errs = ms_lines (fst (validate_lines 0 (split_on (CHR 0x0A) src) [] []))"
    by (simp add: vl)
  also have "\<dots> = {k + 1 | k. k < length (split_on (CHR 0x0A) src) \<and> flagged (split_on (CHR 0x0A) src ! k)}"
    by (simp add: ms_lines_validate_lines ms_lines_Nil)
  finally show ?thesis
    by (simp add: validateDartCode_def Let_def vl ms_lines_checkOverallStructure)
qed

lemma missing_semicolon_iff_ms_lines:
  "(\<exists>e \<in> set errs. err_code e = Some ''missing_semicolon'' \<and> err_line e = n)
     \<longleftrightarrow> n \<in> ms_lines errs"
  by (auto simp: ms_lines_def)

text \<open>
  Claim C6, as the code has it. \<open>validateDartCode\<close> reports a missing-semicolon error for
  line \<open>n\<close> exactly when \<open>n\<close> is the number of a line whose trimmed text is not empty, is not
  a comment (\<^verbatim>\<open>//\<close>, \<^verbatim>\<open>/*\<close>), matches one of the six statement-starting expressions, does not
  end in \<^verbatim>\<open>;\<close>, contains no \<^verbatim>\<open>{\<close> and no \<^verbatim>\<open>=>\<close> anywhere, and does not end in \<^verbatim>\<open>(\<close>. On the
  two-line input of the specification the error is reported for line 1. Stated for sources of
  ASCII characters.
\<close>

theorem missing_semicolon_flagged_iff:
  assumes \<open>isAscii src\<close>
  shows \<open>((\<exists>e \<in> set (errors (validateDartCode src)).
        err_code e = Some ''missing_semicolon'' \<and> err_line e = n)
      \<longleftrightarrow> (1 \<le> n \<and> n \<le> length (split_on (CHR 0x0A) src)
           \<and> (let t = trim (split_on (CHR 0x0A) src ! (n - 1)) in
                t \<noteq> [] \<and> \<not> startsWith t ''//'' \<and> \<not> startsWith t ''/*''
                \<and> list_ex (\<lambda>r. rx_test False r t) statementPatterns
                \<and> \<not> endsWith t '';'' \<and> \<not> includes_str t ''{''
                \<and> \<not> includes_str t ''=>'' \<and> \<not> endsWith t ''('')))
   \<and> (\<exists>e \<in> set (errors (validateDartCode
                  ''var message = "Hello World"\<newline>return Text(message);'')).
        err_code e = Some ''missing_semicolon'' \<and> err_line e = 1)\<close>
proof
  let ?ls = "split_on (CHR 0x0A) src"
  have "n \<in> {k + 1 | k. k < length ?ls \<and> flagged (?ls ! k)}
          \<longleftrightarrow> (1 \<le> n \<and> n \<le> length ?ls \<and> flagged (?ls ! (n - 1)))"
  proof
    assume "n \<in> {k + 1 | k. k < length ?ls \<and> flagged (?ls ! k)}"
    then show "1 \<le> n \<and> n \<le> length ?ls \<and> flagged (?ls ! (n - 1))" by auto
  next
    assume a: "1 \<le> n \<and> n \<le> length ?ls \<and> flagged (?ls ! (n - 1))"
    then have "n = (n - 1) + 1" "n - 1 < length ?ls" by auto
    with a show "n \<in> {k + 1 | k. k < length ?ls \<and> flagged (?ls ! k)}" by blast
  qed
  then show "(\<exists>e \<in> set (errors (validateDartCode src)).
        err_code e = Some ''missing_semicolon'' \<and> err_line e = n)
      \<longleftrightarrow> (1 \<le> n \<and> n \<le> length ?ls
           \<and> (let t = trim (?ls ! (n - 1)) in
                t \<noteq> [] \<and> \<not> startsWith t ''//'' \<and> \<not> startsWith t ''/*''
                \<and> list_ex (\<lambda>r. rx_test False r t) statementPatterns
                \<and> \<not> endsWith t '';'' \<and> \<not> includes_str t ''{''
                \<and> \<not> includes_str t ''=>'' \<and> \<not> endsWith t ''(''))"
    unfolding missing_semicolon_iff_ms_lines ms_lines_validateDartCode flagged_def .
next
  have sp: \<open>split_on (CHR 0x0A) ''var message = "Hello World"\<newline>return Text(message);''
             = [''var message = "Hello World"'', ''return Text(message);'']\<close>
    by code_simp
  have \<open>flagged ''var message = "Hello World"''\<close>
    by code_simp
  then have \<open>1 \<in> ms_lines (errors (validateDartCode
                 ''var message = "Hello World"\<newline>return Text(message);''))\<close>
    unfolding ms_lines_validateDartCode sp by (auto intro!: exI[of _ 0])
  then show \<open>\<exists>e \<in> set (errors (validateDartCode
                  ''var message = "Hello World"\<newline>return Text(message);'')).
        err_code e = Some ''missing_semicolon'' \<and> err_line e = 1\<close>
    unfolding missing_semicolon_iff_ms_lines .
qed

theorem missing_semicolon_flagged_iff_witness:
  \<open>isAscii ''var message = "Hello World"\<newline>return Text(message);''
   \<and> (\<exists>e \<in> set (errors (validateDartCode
                  ''var message = "Hello World"\<newline>return Text(message);'')).
        err_code e = Some ''missing_semicolon'' \<and> err_line e = 1)
   \<and> \<not> (\<exists>e \<in> set (errors (validateDartCode
                  ''var message = "Hello World"\<newline>return Text(message);'')).
        err_code e = Some ''missing_semicolon'' \<and> err_line e = 2)\<close>
proof -
  let ?src = \<open>''var message = "Hello World"\<newline>return Text(message);''\<close>
  have a: \<open>isAscii ?src\<close>
    by code_simp
  have r1: \<open>1 \<le> (1::nat) \<and> 1 \<le> length (split_on (CHR 0x0A) ?src)
           \<and> (let t = trim (split_on (CHR 0x0A) ?src ! (1 - 1)) in
                t \<noteq> [] \<and> \<not> startsWith t ''//'' \<and> \<not> startsWith t ''/*''
                \<and> list_ex (\<lambda>r. rx_test False r t) statementPatterns
                \<and> \<not> endsWith t '';'' \<and> \<not> includes_str t ''{''
                \<and> \<not> includes_str t ''=>'' \<and> \<not> endsWith t ''('')\<close>
    by code_simp
  have r2: \<open>\<not> (1 \<le> (2::nat) \<and> 2 \<le> length (split_on (CHR 0x0A) ?src)
           \<and> (let t = trim (split_on (CHR 0x0A) ?src ! (2 - 1)) in
                t \<noteq> [] \<and> \<not> startsWith t ''//'' \<and> \<not> startsWith t ''/*''
                \<and> list_ex (\<lambda>r. rx_test False r t) statementPatterns
                \<and> \<not> endsWith t '';'' \<and> \<not> includes_str t ''{''
                \<and> \<not> includes_str t ''=>'' \<and> \<not> endsWith t ''(''))\<close>
    by code_simp
  have e1: \<open>\<exists>e \<in> set (errors (validateDartCode ?src)).
              err_code e = Some ''missing_semicolon'' \<and> err_line e = 1\<close>
    using missing_semicolon_flagged_iff[OF a, of 1] r1 by blast
  have e2: \<open>\<not> (\<exists>e \<in> set (errors (validateDartCode ?src)).
              err_code e = Some ''missing_semicolon'' \<and> err_line e = 2)\<close>
    using missing_semicolon_flagged_iff[OF a, of 2] r2 by blast
  show ?thesis
    using a e1 e2 by blast
qed

text \<open>
  The claim as the specification words it exempts only lines that end in \<^verbatim>\<open>{\<close> or \<^verbatim>\<open>=>\<close>.
  The line \<^verbatim>\<open>var m = {}\<close> starts like a statement and ends in none of \<^verbatim>\<open>;\<close>, \<^verbatim>\<open>{\<close>, \<^verbatim>\<open>=>\<close>, \<^verbatim>\<open>(\<close>,
  yet no missing-semicolon error is reported for it.
\<close>

theorem missing_semicolon_ends_in_counterexample:
  "(let t = ''var m = {}'' in
      list_ex (\<lambda>r. rx_test False r t) statementPatterns \<and> \<not> endsWith t '';''
      \<and> \<not> endsWith t ''{'' \<and> \<not> endsWith t ''=>'' \<and> \<not> endsWith t ''('')
   \<and> \<not> (\<exists>e \<in> set (errors (validateDartCode ''var m = {}'')).
            err_code e = Some ''missing_semicolon'' \<and> err_line e = 1)"
proof
  show "let t = ''var m = {}'' in
      list_ex (\<lambda>r. rx_test False r t) statementPatterns \<and> \<not> endsWith t '';''
      \<and> \<not> endsWith t ''{'' \<and> \<not> endsWith t ''=>'' \<and> \<not> endsWith t ''(''"
    by code_simp
next
  have sp: "split_on (CHR 0x0A) ''var m = {}'' = [''var m = {}'']"
    by code_simp
  have "\<not> flagged ''var m = {}''"
    by code_simp
  then have "1 \<notin> ms_lines (errors (validateDartCode ''var m = {}''))"
    unfolding ms_lines_validateDartCode sp by auto
  then show "\<not> (\<exists>e \<in> set (errors (validateDartCode ''var m = {}'')).
            err_code e = Some ''missing_semicolon'' \<and> err_line e = 1)"
    unfolding missing_semicolon_iff_ms_lines .
qed

subsection \<open>Validity and the error list\<close>

text \<open>
  Claim C8. \<open>validateDartCode\<close> is a total function of the input string (the source has no
  \<open>throw\<close> and uses no operation that throws on a string), and the \<open>isValid\<close> field of its
  result is true exactly when the \<open>errors\<close> list is empty. Warnings play no part: the input
  \<^verbatim>\<open>class myWidget\<close> is valid and has a warning.
\<close>

theorem isValid_iff_no_errors:
  "(isValid (validateDartCode src) \<longleftrightarrow> errors (validateDartCode src) = [])
   \<and> isValid (validateDartCode ''class myWidget'')
   \<and> warnings (validateDartCode ''class myWidget'') \<noteq> []"
proof -
  have "isValid (validateDartCode src) \<longleftrightarrow> errors (validateDartCode src) = []"
    by (simp add: validateDartCode_def Let_def split_beta)
  moreover have "isValid (validateDartCode ''class myWidget'')
      \<and> warnings (validateDartCode ''class myWidget'') \<noteq> []"
    by code_simp
  ultimately show ?thesis by blast
qed

subsection \<open>Cyclomatic complexity\<close>

lemma cyclomaticComplexity_eq:
  "cyclomaticComplexity (analyzeComplexity src) = length (match_all False rx_decision src) + 1"
  by (simp add: analyzeComplexity_def Let_def)

text \<open>
  Claim C7, at the input \<^verbatim>\<open>if (a && b) {}\<close>. The text holds the two tokens \<^verbatim>\<open>if\<close> and \<^verbatim>\<open>&&\<close>, so
  the claim gives 3. The expression of the source asks for a word boundary on both sides of
  every alternative, and \<^verbatim>\<open>&&\<close> between spaces has none: the result is 2. Written without
  spaces, \<^verbatim>\<open>a&&b\<close>, the operator is counted.
\<close>

theorem cyclomaticComplexity_spaced_operator:
  "cyclomaticComplexity (analyzeComplexity ''if (a && b) {}'') = 2
   \<and> cyclomaticComplexity (analyzeComplexity ''if (a&&b) {}'') = 3"
proof -
  have "length (match_all False rx_decision ''if (a && b) {}'') = 1"
    by code_simp
  moreover have "length (match_all False rx_decision ''if (a&&b) {}'') = 2"
    by code_simp
  ultimately show ?thesis by (simp add: cyclomaticComplexity_eq)
qed

section \<open>Properties of the template generator\<close>

subsection \<open>Text that the passes step over\<close>












subsection \<open>Plain text and absent tokens\<close>








subsection \<open>The three passes on a well-formed template\<close>

lemma rendered_parts_empty: "concat (map (part_rendered cfg) ps) \<noteq> [] \<Longrightarrow> ps \<noteq> []"
  by auto












subsection \<open>The round trip\<close>




subsection \<open>List blocks\<close>

text \<open>
  Claim C1, at a block whose value is a list of two items. The second pass treats the list
  as a true condition and puts the content there once, unchanged: the third pass, whose
  replacer \<open>loop_block\<close> would give \<^verbatim>\<open><a><b>\<close>, finds no block left. An empty list also renders
  the content once.
\<close>

theorem list_block_rendered_once:
  "replaceTemplateVariables ''{{#items}}<{{name}}>{{/items}}''
     (map_of [(''items'', JArr [JObj [(''name'', JStr ''a'')], JObj [(''name'', JStr ''b'')]])])
     = ''<{{name}}>''
   \<and> loop_block (map_of [(''items'', JArr [JObj [(''name'', JStr ''a'')],
                                           JObj [(''name'', JStr ''b'')]])])
        ''items'' ''<{{name}}>'' = ''<a><b>''
   \<and> replaceTemplateVariables ''{{#items}}<{{name}}>{{/items}}'' (map_of [(''items'', JArr [])])
     = ''<{{name}}>''"
  by code_simp

subsection \<open>The project type check\<close>

lemma render_not_unsupported: "render fs n d cfg \<noteq> Inl UnsupportedProjectType"
  by (simp add: render_def loadTemplate_def split: option.splits)

lemma generateFlutterProject_not_unsupported:
  "generateFlutterProject fs pc \<noteq> Inl UnsupportedProjectType"
  using render_not_unsupported
  by (auto simp: generateFlutterProject_def Let_def generateMainDart_def generatePubspecYaml_def
      generateScreen_def split: sum.splits)

text \<open>
  Claim C9. \<open>generateFlutterCodeFromPrompt\<close> fails with the unsupported-project-type error for
  every project type other than \<open>FLUTTER_MOBILE\<close>; for \<open>FLUTTER_MOBILE\<close> it never fails with
  that error (it returns code, or fails because a template is missing).
\<close>

theorem unsupported_project_type:
  "(projectType \<noteq> FLUTTER_MOBILE
      \<longrightarrow> generateFlutterCodeFromPrompt fs prompt projectType = Inl UnsupportedProjectType)
   \<and> generateFlutterCodeFromPrompt fs prompt FLUTTER_MOBILE \<noteq> Inl UnsupportedProjectType"
proof -
  have "generateScreenFromPrompt fs prompt \<noteq> Inl UnsupportedProjectType"
    by (simp add: generateScreenFromPrompt_def Let_def generateScreen_def render_not_unsupported)
  moreover have "generateWidgetFromPrompt fs prompt \<noteq> Inl UnsupportedProjectType"
    by (simp add: generateWidgetFromPrompt_def Let_def generateStatefulWidget_def
        generateStatelessWidget_def render_not_unsupported)
  moreover have "generateProjectFromPrompt fs prompt \<noteq> Inl UnsupportedProjectType"
    using generateFlutterProject_not_unsupported
    by (auto simp: generateProjectFromPrompt_def Let_def split: sum.splits)
  ultimately show ?thesis
    by (simp add: generateFlutterCodeFromPrompt_def Let_def generateStatelessWidget_def
        render_not_unsupported)
qed

theorem unsupported_project_type_witness:
  "REACT_WEB \<noteq> FLUTTER_MOBILE
   \<and> generateFlutterCodeFromPrompt Map.empty ''create a widget'' REACT_WEB
       = Inl UnsupportedProjectType
   \<and> generateFlutterCodeFromPrompt Map.empty ''create a widget'' FLUTTER_MOBILE
       \<noteq> Inl UnsupportedProjectType"
  using unsupported_project_type[of REACT_WEB Map.empty "''create a widget''"] by simp

end
